theory Spec2Isabelle
  imports Complex_Main "HOL-Library.Word" "HOL-Library.Log_Nat"
begin

section \<open>Binary floating point, as the sketch's \<open>float\<close> and \<open>double\<close> compute\<close>

text \<open>
  The sketch runs on a Feather M0 (32-bit ARM): \<open>int\<close> has 32 bits, \<open>float\<close> is IEEE 754
  binary32 and \<open>double\<close> is binary64, every operation rounded to nearest, ties to even.
  A floating-point value is a rational (every finite binary number is one), an infinity or
  NaN. The sign of a zero is not represented: in this sketch every divisor that is zero is
  a positive zero (a converted integer, a sum of non-negative values, or a sum ending in
  \<open>+ 1\<close>), and no comparison tells the two zeros apart.
\<close>

datatype fp = Fin rat | PInf | NInf | NaN

text \<open>Round to the nearest integer, a tie to the even one.\<close>

definition rhe :: "rat \<Rightarrow> int" where
  "rhe x = (let n = \<lfloor>x\<rfloor>; r = x - of_int n
            in if r < 1 / 2 then n else if 1 / 2 < r then n + 1
               else if even n then n else n + 1)"

text \<open>The binary exponent of a positive rational: \<open>2 powi ilog2 x \<le> x < 2 powi (ilog2 x + 1)\<close>.\<close>

definition ilog2 :: "rat \<Rightarrow> int" where
  "ilog2 x = (if 1 \<le> x then bitlen \<lfloor>x\<rfloor> - 1 else - bitlen (\<lceil>1 / x\<rceil> - 1))"

text \<open>
  \<open>rnd p emin emax q\<close> rounds \<open>q\<close> to the format with \<open>p\<close> significant bits whose least
  subnormal is \<open>2 powi emin\<close> and whose largest finite value is \<open>(2 ^ p - 1) * 2 powi emax\<close>:
  the significand is rounded at the exponent of \<open>q\<close> (at \<open>emin\<close> in the subnormal range), and
  a result beyond the largest finite value is an infinity.
\<close>

definition rnd :: "nat \<Rightarrow> int \<Rightarrow> int \<Rightarrow> rat \<Rightarrow> fp" where
  "rnd p emin emax q =
     (if q = 0 then Fin 0
      else let x = \<bar>q\<bar>;
               ex = max emin (ilog2 x - (int p - 1));
               m = rhe (x / 2 powi ex);
               y = of_int m * 2 powi ex
           in if (2 ^ p - 1) * 2 powi emax < y then (if 0 < q then PInf else NInf)
              else Fin (if 0 < q then y else - y))"

definition rnd32 :: "rat \<Rightarrow> fp" where
  "rnd32 = rnd 24 (- 149) 104"

definition rnd64 :: "rat \<Rightarrow> fp" where
  "rnd64 = rnd 53 (- 1074) 971"

definition is_neg :: "fp \<Rightarrow> bool" where
  "is_neg x = (case x of Fin q \<Rightarrow> q < 0 | NInf \<Rightarrow> True | _ \<Rightarrow> False)"

definition inf_of :: "bool \<Rightarrow> fp" where
  "inf_of neg = (if neg then NInf else PInf)"

definition is_finite :: "fp \<Rightarrow> bool" where
  "is_finite x = (case x of Fin _ \<Rightarrow> True | _ \<Rightarrow> False)"

fun fneg :: "fp \<Rightarrow> fp" where
  "fneg (Fin x) = Fin (- x)"
| "fneg PInf = NInf"
| "fneg NInf = PInf"
| "fneg NaN = NaN"

text \<open>The four operations, with the rounding \<open>R\<close> of the operands' format.\<close>

fun fadd :: "(rat \<Rightarrow> fp) \<Rightarrow> fp \<Rightarrow> fp \<Rightarrow> fp" where
  "fadd R (Fin x) (Fin y) = R (x + y)"
| "fadd R NaN y = NaN"
| "fadd R x NaN = NaN"
| "fadd R PInf NInf = NaN"
| "fadd R NInf PInf = NaN"
| "fadd R PInf y = PInf"
| "fadd R NInf y = NInf"
| "fadd R (Fin x) PInf = PInf"
| "fadd R (Fin x) NInf = NInf"

definition fsub :: "(rat \<Rightarrow> fp) \<Rightarrow> fp \<Rightarrow> fp \<Rightarrow> fp" where
  "fsub R x y = fadd R x (fneg y)"

fun fmul :: "(rat \<Rightarrow> fp) \<Rightarrow> fp \<Rightarrow> fp \<Rightarrow> fp" where
  "fmul R (Fin x) (Fin y) = R (x * y)"
| "fmul R NaN y = NaN"
| "fmul R x NaN = NaN"
| "fmul R (Fin x) y = (if x = 0 then NaN else inf_of ((x < 0) \<noteq> is_neg y))"
| "fmul R x (Fin y) = (if y = 0 then NaN else inf_of (is_neg x \<noteq> (y < 0)))"
| "fmul R x y = inf_of (is_neg x \<noteq> is_neg y)"

fun fdiv :: "(rat \<Rightarrow> fp) \<Rightarrow> fp \<Rightarrow> fp \<Rightarrow> fp" where
  "fdiv R (Fin x) (Fin y) =
     (if y = 0 then (if x = 0 then NaN else inf_of (x < 0)) else R (x / y))"
| "fdiv R NaN y = NaN"
| "fdiv R x NaN = NaN"
| "fdiv R (Fin x) y = Fin 0"
| "fdiv R x (Fin y) = inf_of (is_neg x \<noteq> (y < 0))"
| "fdiv R x y = NaN"

text \<open>The comparison \<open><\<close>: false whenever an operand is NaN.\<close>

fun flt :: "fp \<Rightarrow> fp \<Rightarrow> bool" where
  "flt (Fin x) (Fin y) = (x < y)"
| "flt NaN y = False"
| "flt x NaN = False"
| "flt x NInf = False"
| "flt PInf y = False"
| "flt x y = True"

text \<open>Conversions: an integer to \<open>float\<close> or \<open>double\<close>, and a \<open>double\<close> to \<open>float\<close>.
  A \<open>float\<close> converts to \<open>double\<close> unchanged.\<close>

definition f32_of_int :: "int \<Rightarrow> fp" where
  "f32_of_int n = rnd32 (of_int n)"

definition f64_of_int :: "int \<Rightarrow> fp" where
  "f64_of_int n = rnd64 (of_int n)"

definition f32_of_f64 :: "fp \<Rightarrow> fp" where
  "f32_of_f64 x = (case x of Fin q \<Rightarrow> rnd32 q | _ \<Rightarrow> x)"

abbreviation fadd32 :: "fp \<Rightarrow> fp \<Rightarrow> fp" where "fadd32 \<equiv> fadd rnd32"
abbreviation fsub32 :: "fp \<Rightarrow> fp \<Rightarrow> fp" where "fsub32 \<equiv> fsub rnd32"
abbreviation fmul32 :: "fp \<Rightarrow> fp \<Rightarrow> fp" where "fmul32 \<equiv> fmul rnd32"
abbreviation fdiv32 :: "fp \<Rightarrow> fp \<Rightarrow> fp" where "fdiv32 \<equiv> fdiv rnd32"
abbreviation fadd64 :: "fp \<Rightarrow> fp \<Rightarrow> fp" where "fadd64 \<equiv> fadd rnd64"
abbreviation fsub64 :: "fp \<Rightarrow> fp \<Rightarrow> fp" where "fsub64 \<equiv> fsub rnd64"
abbreviation fmul64 :: "fp \<Rightarrow> fp \<Rightarrow> fp" where "fmul64 \<equiv> fmul rnd64"
abbreviation fdiv64 :: "fp \<Rightarrow> fp \<Rightarrow> fp" where "fdiv64 \<equiv> fdiv rnd64"

section \<open>The spectral sample\<close>

text \<open>
  Both \<open>calibrate\<close> and \<open>loop\<close> read the eighteen channels of the AS7265x record into
  \<open>uint16_t\<close> variables \<open>a\<close> .. \<open>l\<close>, \<open>r\<close> .. \<open>w\<close>. The assignment \<open>a = (float)a\<close> that
  follows each read leaves the variable as it is: every 16-bit value is a binary32 number
  and converts back to itself. In an expression a \<open>uint16_t\<close> is promoted to \<open>int\<close>, so the
  sums below are sums of integers; the largest, eighteen channels of 65535, is far from
  the 32-bit limit.
\<close>

record sample =
  a :: "16 word"
  b :: "16 word"
  c :: "16 word"
  d :: "16 word"
  e :: "16 word"
  f :: "16 word"
  g :: "16 word"
  h :: "16 word"
  i :: "16 word"
  j :: "16 word"
  k :: "16 word"
  l :: "16 word"
  r :: "16 word"
  s :: "16 word"
  t :: "16 word"
  u :: "16 word"
  v :: "16 word"
  w :: "16 word"

subsection \<open>The index in \<open>calibrate\<close> (lines 114 to 116)\<close>

definition calibrate_nd :: "sample \<Rightarrow> fp" where
  "calibrate_nd smp =
     f32_of_int ((uint (u smp) + uint (v smp) + uint (w smp) + uint (e smp) + uint (f smp) + uint (g smp))
                 - 2 * (uint (b smp) + uint (c smp) + uint (d smp)))"

definition calibrate_vib :: "sample \<Rightarrow> fp" where
  "calibrate_vib smp =
     f32_of_int ((uint (u smp) + uint (v smp) + uint (w smp) + uint (e smp) + uint (f smp) + uint (g smp))
                 + 2 * (uint (b smp) + uint (c smp) + uint (d smp)))"

definition calibrate_ndvi :: "sample \<Rightarrow> fp" where
  "calibrate_ndvi smp = fdiv32 (calibrate_nd smp) (calibrate_vib smp)"

subsection \<open>The quantities of one pass of \<open>loop\<close>'s \<open>while\<close> (lines 202 to 252)\<close>

text \<open>The variable \<open>total\<close> of line 202 (\<open>total\<close> alone is a constant of HOL).\<close>

definition total_bands :: "sample \<Rightarrow> fp" where
  "total_bands smp =
     f32_of_int (uint (a smp) + uint (b smp) + uint (c smp) + uint (d smp) + uint (e smp)
               + uint (f smp) + uint (g smp) + uint (h smp) + uint (i smp) + uint (j smp)
               + uint (k smp) + uint (l smp) + uint (r smp) + uint (s smp) + uint (t smp)
               + uint (u smp) + uint (v smp) + uint (w smp))"

text \<open>The normalized wavelength values. \<open>e_w\<close> and \<open>f_w\<close> are read from \<open>b\<close>, as lines 211
  and 212 have them.\<close>

definition a_w :: "sample \<Rightarrow> fp" where "a_w smp = fdiv32 (f32_of_int (uint (a smp))) (total_bands smp)"
definition b_w :: "sample \<Rightarrow> fp" where "b_w smp = fdiv32 (f32_of_int (uint (b smp))) (total_bands smp)"
definition c_w :: "sample \<Rightarrow> fp" where "c_w smp = fdiv32 (f32_of_int (uint (c smp))) (total_bands smp)"
definition d_w :: "sample \<Rightarrow> fp" where "d_w smp = fdiv32 (f32_of_int (uint (d smp))) (total_bands smp)"
definition e_w :: "sample \<Rightarrow> fp" where "e_w smp = fdiv32 (f32_of_int (uint (b smp))) (total_bands smp)"
definition f_w :: "sample \<Rightarrow> fp" where "f_w smp = fdiv32 (f32_of_int (uint (b smp))) (total_bands smp)"
definition g_w :: "sample \<Rightarrow> fp" where "g_w smp = fdiv32 (f32_of_int (uint (g smp))) (total_bands smp)"
definition j_w :: "sample \<Rightarrow> fp" where "j_w smp = fdiv32 (f32_of_int (uint (j smp))) (total_bands smp)"
definition k_w :: "sample \<Rightarrow> fp" where "k_w smp = fdiv32 (f32_of_int (uint (k smp))) (total_bands smp)"
definition r_w :: "sample \<Rightarrow> fp" where "r_w smp = fdiv32 (f32_of_int (uint (r smp))) (total_bands smp)"
definition s_w :: "sample \<Rightarrow> fp" where "s_w smp = fdiv32 (f32_of_int (uint (s smp))) (total_bands smp)"
definition t_w :: "sample \<Rightarrow> fp" where "t_w smp = fdiv32 (f32_of_int (uint (t smp))) (total_bands smp)"
definition u_w :: "sample \<Rightarrow> fp" where "u_w smp = fdiv32 (f32_of_int (uint (u smp))) (total_bands smp)"
definition v_w :: "sample \<Rightarrow> fp" where "v_w smp = fdiv32 (f32_of_int (uint (v smp))) (total_bands smp)"
definition w_w :: "sample \<Rightarrow> fp" where "w_w smp = fdiv32 (f32_of_int (uint (w smp))) (total_bands smp)"

definition loop_nd :: "sample \<Rightarrow> fp" where
  "loop_nd smp =
     f32_of_int ((uint (u smp) + uint (v smp) + uint (w smp) + uint (e smp) + uint (f smp) + uint (g smp))
                 - 2 * (uint (b smp) + uint (c smp) + uint (d smp)))"

definition loop_vib :: "sample \<Rightarrow> fp" where
  "loop_vib smp =
     f32_of_int ((uint (u smp) + uint (v smp) + uint (w smp) + uint (e smp) + uint (f smp) + uint (g smp))
                 + 2 * (uint (b smp) + uint (c smp) + uint (d smp)))"

definition ndvib :: "sample \<Rightarrow> fp" where
  "ndvib smp = fdiv32 (loop_nd smp) (loop_vib smp)"

definition psnd :: "sample \<Rightarrow> fp" where
  "psnd smp = fdiv32 (f32_of_int (uint (v smp) - uint (f smp))) (f32_of_int (uint (v smp) + uint (f smp)))"

text \<open>\<open>evi\<close> is computed in \<open>double\<close> (the literals \<open>2.5\<close> and \<open>7.5\<close> are doubles) and
  stored in a \<open>float\<close>.\<close>

definition evi :: "sample \<Rightarrow> fp" where
  "evi smp =
     f32_of_f64
       (fdiv64 (fmul64 (Fin (5 / 2)) (f64_of_int (uint (v smp) - uint (s smp))))
               (fadd64 (fsub64 (f64_of_int (uint (v smp) + 6 * uint (s smp)))
                               (fmul64 (Fin (15 / 2)) (f64_of_int (uint (b smp)))))
                       (f64_of_int 1)))"

definition ndvib_w :: "sample \<Rightarrow> fp" where
  "ndvib_w smp =
     fdiv32
       (fsub32 (fadd32 (fadd32 (fadd32 (fadd32 (fadd32 (u_w smp) (v_w smp)) (w_w smp)) (e_w smp)) (f_w smp)) (g_w smp))
               (fmul32 (f32_of_int 2) (fadd32 (fadd32 (b_w smp) (c_w smp)) (d_w smp))))
       (fadd32 (fadd32 (fadd32 (fadd32 (fadd32 (fadd32 (u_w smp) (v_w smp)) (w_w smp)) (e_w smp)) (f_w smp)) (g_w smp))
               (fmul32 (f32_of_int 2) (fadd32 (fadd32 (b_w smp) (c_w smp)) (d_w smp))))"

definition psnd_w :: "sample \<Rightarrow> fp" where
  "psnd_w smp = fdiv32 (fsub32 (v_w smp) (f_w smp)) (fadd32 (v_w smp) (f_w smp))"

definition evi_w :: "sample \<Rightarrow> fp" where
  "evi_w smp =
     f32_of_f64
       (fdiv64 (fmul64 (Fin (5 / 2)) (fsub32 (v_w smp) (s_w smp)))
               (fadd64 (fsub64 (fadd32 (v_w smp) (fmul32 (f32_of_int 6) (s_w smp)))
                               (fmul64 (Fin (15 / 2)) (b_w smp)))
                       (f64_of_int 1)))"

section \<open>The device\<close>

text \<open>
  The globals \<open>threshold\<close>, \<open>ndvi\<close> and \<open>offset\<close>, the level of the pin \<open>12V_Rail_Enable\<close> with
  the history of the \<open>digitalWrite\<close> calls on it, the number of \<open>Loom.measure\<close> calls made so
  far, the entries logged to the SD card and the banners printed. The sensor is a stream:
  \<open>sensor n\<close> is the sample that the call number \<open>n\<close> of \<open>Loom.measure\<close> delivers.
  The array \<open>ndvi\<close> has sixteen elements: the states of the sketch are those with
  \<open>length (ndvi st) = 16\<close>. Time is not modelled (\<open>delay\<close>, \<open>Loom.pause\<close>), nor is the
  3.3 V rail, which only \<open>setup\<close> touches.
\<close>

datatype decision = Target | NoTarget

record log_entry =
  log_NDVIB :: fp
  log_EVI :: fp
  log_Threshold :: fp
  log_NDVIB_W :: fp
  log_EVI_W :: fp
  log_PSND_W :: fp

record device =
  threshold :: fp
  ndvi :: "fp list"
  offset :: fp
  Rail_Enable_12V :: bool
  rail_writes :: "bool list"
  measured :: nat
  sd_log :: "log_entry list"
  banners :: "decision list"

definition digitalWrite_12V :: "bool \<Rightarrow> device \<Rightarrow> device" where
  "digitalWrite_12V lvl st = st\<lparr>Rail_Enable_12V := lvl, rail_writes := rail_writes st @ [lvl]\<rparr>"

text \<open>The state at power-on: the initializers of lines 42 to 44 (\<open>.015\<close> is a \<open>double\<close>
  literal stored in a \<open>float\<close>), the array zeroed, no call made yet.\<close>

definition boot :: device where
  "boot = \<lparr>threshold = f32_of_int 0, ndvi = replicate 16 (Fin 0),
           offset = f32_of_f64 (rnd64 (15 / 1000)), Rail_Enable_12V = False,
           rail_writes = [], measured = 0, sd_log = [], banners = []\<rparr>"

text \<open>\<open>setup\<close> (the name is a keyword of Isabelle, hence \<open>sketch_setup\<close>): the 12 V rail
  starts low.\<close>

definition sketch_setup :: "device \<Rightarrow> device" where
  "sketch_setup st = digitalWrite_12V False st"

subsection \<open>\<open>calibrate\<close>\<close>

text \<open>The sampling loop \<open>for (z = 0; z < 16; z++)\<close>, lines 80 to 120.\<close>

function calibrate_sample :: "(nat \<Rightarrow> sample) \<Rightarrow> nat \<Rightarrow> device \<Rightarrow> device" where
  "calibrate_sample sensor z st =
     (if z < 16
      then calibrate_sample sensor (z + 1)
             (st\<lparr>ndvi := (ndvi st)[z := calibrate_ndvi (sensor (measured st))],
                 measured := measured st + 1\<rparr>)
      else st)"
  by pat_completeness auto
termination
  by (relation "measure (\<lambda>(sensor, z, st). 16 - z)") auto

declare calibrate_sample.simps [simp del]

text \<open>The summing loop \<open>for (i = 0; i < 16; i++) threshold += ndvi[i]\<close>, lines 123 and 124.\<close>

function calibrate_sum :: "nat \<Rightarrow> device \<Rightarrow> device" where
  "calibrate_sum n st =
     (if n < 16
      then calibrate_sum (n + 1) (st\<lparr>threshold := fadd32 (threshold st) (ndvi st ! n)\<rparr>)
      else st)"
  by pat_completeness auto
termination
  by (relation "measure (\<lambda>(n, st). 16 - n)") auto

declare calibrate_sum.simps [simp del]

definition calibrate :: "(nat \<Rightarrow> sample) \<Rightarrow> device \<Rightarrow> device" where
  "calibrate sensor st =
     (let st1 = calibrate_sample sensor 0 st;
          st2 = calibrate_sum 0 st1;
          st3 = st2\<lparr>threshold := fadd32 (fdiv32 (threshold st2) (f32_of_int 16)) (offset st2)\<rparr>;
          st4 = digitalWrite_12V True st3
      in digitalWrite_12V False st4)"

subsection \<open>One pass of the \<open>while (1)\<close> of \<open>loop\<close>\<close>

text \<open>
  The decision of a pass is the branch that line 271 takes, \<open>if (threshold < ndvib)\<close>: the
  banner it prints and the level it writes to the 12 V rail. One entry is logged before it,
  with the six values that \<open>Loom.add_data\<close> was given (\<open>LightState\<close>, which the sketch does
  not declare, is left out).
\<close>

definition decide :: "fp \<Rightarrow> fp \<Rightarrow> decision" where
  "decide thr idx = (if flt thr idx then Target else NoTarget)"

definition cycle :: "(nat \<Rightarrow> sample) \<Rightarrow> device \<Rightarrow> device" where
  "cycle sensor st =
     (let smp = sensor (measured st);
          st1 = st\<lparr>measured := measured st + 1\<rparr>;
          st2 = st1\<lparr>sd_log := sd_log st1 @
                  [\<lparr>log_NDVIB = ndvib smp, log_EVI = evi smp, log_Threshold = threshold st1,
                    log_NDVIB_W = ndvib_w smp, log_EVI_W = evi_w smp, log_PSND_W = psnd_w smp\<rparr>]\<rparr>
      in if flt (threshold st2) (ndvib smp)
         then digitalWrite_12V True (st2\<lparr>banners := banners st2 @ [Target]\<rparr>)
         else digitalWrite_12V False (st2\<lparr>banners := banners st2 @ [NoTarget]\<rparr>))"

subsection \<open>The control flow of the sketch\<close>

text \<open>
  The Arduino runtime calls \<open>setup\<close> once and then \<open>loop\<close>. \<open>loop\<close> calls \<open>calibrate\<close> and
  enters \<open>while (1)\<close>, whose body has no \<open>break\<close> and no \<open>return\<close>: control stays there.
\<close>

datatype pc = At_setup | At_loop | In_while

fun step :: "(nat \<Rightarrow> sample) \<Rightarrow> pc \<times> device \<Rightarrow> pc \<times> device" where
  "step sensor (At_setup, st) = (At_loop, sketch_setup st)"
| "step sensor (At_loop, st) = (In_while, calibrate sensor st)"
| "step sensor (In_while, st) = (In_while, cycle sensor st)"

definition run :: "(nat \<Rightarrow> sample) \<Rightarrow> nat \<Rightarrow> pc \<times> device" where
  "run sensor n = (step sensor ^^ n) (At_setup, boot)"

text \<open>The state in which the monitoring loop starts: \<open>setup\<close> and \<open>calibrate\<close> have run.\<close>

definition calibrated :: "(nat \<Rightarrow> sample) \<Rightarrow> device" where
  "calibrated sensor = snd (run sensor 2)"

section \<open>The specification's quantities, and the samples of its scenarios\<close>

text \<open>
  The specification writes the index over the sums of two band sets,
  \<open>numBands = {u, v, w, e, f, g}\<close> and \<open>denomBands = {b, c, d}\<close>, as the real number
  \<open>(\<Sum>numBands - 2 * \<Sum>denomBands) / (\<Sum>numBands + 2 * \<Sum>denomBands)\<close>.
\<close>

definition numBands :: "sample \<Rightarrow> int" where
  "numBands smp = uint (u smp) + uint (v smp) + uint (w smp) + uint (e smp) + uint (f smp) + uint (g smp)"

definition denomBands :: "sample \<Rightarrow> int" where
  "denomBands smp = uint (b smp) + uint (c smp) + uint (d smp)"

definition denominator :: "sample \<Rightarrow> int" where
  "denominator smp = numBands smp + 2 * denomBands smp"

definition spec_index :: "sample \<Rightarrow> rat" where
  "spec_index smp = of_int (numBands smp - 2 * denomBands smp) / of_int (denominator smp)"

text \<open>The sum of all eighteen bands, as an integer.\<close>

definition all_bands :: "sample \<Rightarrow> int" where
  "all_bands smp =
     uint (a smp) + uint (b smp) + uint (c smp) + uint (d smp) + uint (e smp)
   + uint (f smp) + uint (g smp) + uint (h smp) + uint (i smp) + uint (j smp)
   + uint (k smp) + uint (l smp) + uint (r smp) + uint (s smp) + uint (t smp)
   + uint (u smp) + uint (v smp) + uint (w smp)"

text \<open>The calibration batch: the indices of the sixteen samples that \<open>calibrate\<close> reads when
  \<open>m\<close> calls of \<open>Loom.measure\<close> came before, in the order of acquisition.\<close>

definition batch :: "(nat \<Rightarrow> sample) \<Rightarrow> nat \<Rightarrow> fp list" where
  "batch sensor m = map (\<lambda>n. calibrate_ndvi (sensor (m + n))) [0..<16]"

text \<open>The specification's threshold, mean plus offset, computed as \<open>calibrate\<close> computes:
  the indices summed from zero, the sum divided by 16, the offset added, each a binary32
  operation.\<close>

definition mean_plus_offset :: "fp list \<Rightarrow> fp \<Rightarrow> fp" where
  "mean_plus_offset xs off = fadd32 (fdiv32 (foldl fadd32 (Fin 0) xs) (Fin 16)) off"

definition dark_sample :: sample where
  "dark_sample = \<lparr>a = 0, b = 0, c = 0, d = 0, e = 0, f = 0, g = 0, h = 0, i = 0, j = 0,
      k = 0, l = 0, r = 0, s = 0, t = 0, u = 0, v = 0, w = 0\<rparr>"

text \<open>The end-to-end scenario: \<open>u = v = w = 300\<close>, \<open>e = f = g = 100\<close>, \<open>b = c = d = 50\<close>.\<close>

definition scenario_sample :: sample where
  "scenario_sample = dark_sample\<lparr>b := 50, c := 50, d := 50, e := 100, f := 100, g := 100,
      u := 300, v := 300, w := 300\<rparr>"

text \<open>A sample whose index is exactly one half (\<open>4 / 8\<close>), and the sensor that delivers it
  at every call.\<close>

definition half_sample :: sample where
  "half_sample = dark_sample\<lparr>b := 1, u := 6\<rparr>"

definition half_stream :: "nat \<Rightarrow> sample" where
  "half_stream n = half_sample"

definition scenario_stream :: "nat \<Rightarrow> sample" where
  "scenario_stream n = scenario_sample"

definition dark_stream :: "nat \<Rightarrow> sample" where
  "dark_stream n = dark_sample"

text \<open>Three distinct readings in \<open>b\<close>, \<open>e\<close> and \<open>f\<close>.\<close>

definition bef_sample :: sample where
  "bef_sample = dark_sample\<lparr>b := 1, e := 2, f := 3\<rparr>"

text \<open>Light in band \<open>a\<close> only.\<close>

definition a_only_sample :: sample where
  "a_only_sample = dark_sample\<lparr>a := 1\<rparr>"

text \<open>A stream whose first calibration leaves a threshold that a second one absorbs: one
  sample of index close to \<open>-0.24\<close> (\<open>-20129 / 83871\<close>), fifteen samples of index 0
  (\<open>0 / 4\<close>), then samples of index 1 (\<open>1 / 1\<close>).\<close>

definition near_sample :: sample where
  "near_sample = dark_sample\<lparr>b := 26000, u := 31871\<rparr>"

definition zero_sample :: sample where
  "zero_sample = dark_sample\<lparr>b := 1, u := 2\<rparr>"

definition unit_sample :: sample where
  "unit_sample = dark_sample\<lparr>u := 1\<rparr>"

definition absorbed_stream :: "nat \<Rightarrow> sample" where
  "absorbed_stream n = (if n = 0 then near_sample else if n < 16 then zero_sample else unit_sample)"

text \<open>The state in which the threshold is the \<open>float\<close> nearest to 0.515.\<close>

definition scenario_state :: device where
  "scenario_state = boot\<lparr>threshold := rnd32 (515 / 1000)\<rparr>"

text \<open>A state that differs from \<open>scenario_state\<close> in the level of the rail, in its history and
  in the position in the sensor stream, and a state whose threshold is the scenario sample's
  own index.\<close>

definition other_state :: device where
  "other_state = scenario_state\<lparr>Rail_Enable_12V := True, rail_writes := [False, True], measured := 40\<rparr>"

definition tie_state :: device where
  "tie_state = boot\<lparr>threshold := ndvib scenario_sample\<rparr>"

text \<open>The fifteen normalized wavelength values of lines 207 to 221, and the three normalized
  indices of lines 246 to 252.\<close>

definition normalized_bands :: "(sample \<Rightarrow> fp) list" where
  "normalized_bands = [a_w, b_w, c_w, d_w, e_w, f_w, g_w, j_w, k_w, r_w, s_w, t_w, u_w, v_w, w_w]"

definition normalized_indices :: "(sample \<Rightarrow> fp) list" where
  "normalized_indices = [ndvib_w, psnd_w, evi_w]"

subsection \<open>The functions of the sketch, and which of them each one calls\<close>

text \<open>
  The sketch defines four functions. \<open>loop\<close> calls \<open>calibrate\<close>; no other function of the
  sketch is called from the sketch (the Arduino runtime calls \<open>setup\<close> and \<open>loop\<close>, nothing
  calls \<open>MeasureBat\<close>). The index formula is written out in the body of \<open>calibrate\<close> and
  again in the body of \<open>loop\<close>.
\<close>

datatype sketch_fn = Fn_setup | Fn_calibrate | Fn_MeasureBat | Fn_loop

fun callees :: "sketch_fn \<Rightarrow> sketch_fn list" where
  "callees Fn_setup = []"
| "callees Fn_calibrate = []"
| "callees Fn_MeasureBat = []"
| "callees Fn_loop = [Fn_calibrate]"

section \<open>Rounding: exact on small integers, bounded, and close to the exact value\<close>

text \<open>Known values: one third, a tie that goes to the even significand, the least subnormal
  and the tie below it, the largest finite number and the overflow threshold, and one tenth
  as a \<open>double\<close>.\<close>

lemma rnd_known_values:
  "rnd32 (1 / 3) = Fin (11184811 / 2 ^ 25)"
  "rnd32 16777217 = Fin 16777216"
  "rnd32 16777219 = Fin 16777220"
  "rnd32 (1 / 2 ^ 149) = Fin (1 / 2 ^ 149)"
  "rnd32 (1 / 2 ^ 150) = Fin 0"
  "rnd32 (3 / 2 ^ 150) = Fin (2 / 2 ^ 149)"
  "rnd32 ((2 ^ 24 - 1) * 2 ^ 104 + 2 ^ 103 - 1) = Fin ((2 ^ 24 - 1) * 2 ^ 104)"
  "rnd32 ((2 ^ 24 - 1) * 2 ^ 104 + 2 ^ 103) = PInf"
  "rnd32 (- (2 ^ 128)) = NInf"
  "rnd64 (1 / 10) = Fin (3602879701896397 / 2 ^ 55)"
  by code_simp+

lemma rhe_of_int: "rhe (of_int n) = n"
  by (simp add: rhe_def Let_def)

lemma rhe_le_int: "x \<le> of_int N \<Longrightarrow> rhe x \<le> N"
proof -
  assume le: "x \<le> of_int N"
  have fl: "\<lfloor>x\<rfloor> \<le> N" using le by (simp add: floor_le_iff)
  show ?thesis
  proof (cases "\<lfloor>x\<rfloor> = N")
    case True
    then have "x = of_int N" using le by (metis of_int_floor_le order_antisym)
    then show ?thesis by (simp add: rhe_of_int)
  next
    case False
    with fl have "\<lfloor>x\<rfloor> + 1 \<le> N" by simp
    then show ?thesis by (auto simp: rhe_def Let_def)
  qed
qed

lemma rhe_nonneg: "0 \<le> x \<Longrightarrow> 0 \<le> rhe x"
  by (auto simp: rhe_def Let_def)

lemma rhe_err: "\<bar>of_int (rhe x) - x\<bar> \<le> 1 / 2"
proof -
  have "of_int \<lfloor>x\<rfloor> \<le> x" "x < of_int \<lfloor>x\<rfloor> + 1" by linarith+
  then show ?thesis by (auto simp: rhe_def Let_def abs_le_iff)
qed

lemma ilog2_bounds:
  assumes "0 < x"
  shows "2 powi ilog2 x \<le> x \<and> x < 2 powi (ilog2 x + 1)"
proof (cases "1 \<le> x")
  case True
  define n where "n = \<lfloor>x\<rfloor>"
  have n1: "1 \<le> n" using True by (simp add: n_def)
  then have npos: "0 < n" by simp
  have b: "2 ^ nat (bitlen n - 1) \<le> n" "n < 2 ^ nat (bitlen n)"
    using bitlen_bounds [OF npos] by simp_all
  have bl: "1 \<le> bitlen n" using npos bitlen_eq_zero_iff [of n] bitlen_nonneg [of n] by linarith
  have lo: "(2::rat) powi (bitlen n - 1) \<le> x"
  proof -
    have "(2::rat) powi (bitlen n - 1) = 2 ^ nat (bitlen n - 1)"
      using bl by (simp add: power_int_nonneg_exp)
    also have "\<dots> = of_int (2 ^ nat (bitlen n - 1))" by simp
    also have "\<dots> \<le> of_int n" using b(1) by (simp only: of_int_le_iff)
    also have "\<dots> \<le> x" by (simp add: n_def)
    finally show ?thesis .
  qed
  have hi: "x < (2::rat) powi (bitlen n - 1 + 1)"
  proof -
    have "x < of_int (n + 1)" unfolding n_def by linarith
    also have "(of_int (n + 1) :: rat) \<le> of_int (2 ^ nat (bitlen n))"
      using b(2) by (simp only: of_int_le_iff; simp)
    also have "(of_int (2 ^ nat (bitlen n)) :: rat) = 2 powi (bitlen n - 1 + 1)"
      using bl by (simp add: power_int_nonneg_exp)
    finally show ?thesis .
  qed
  show ?thesis using True lo hi by (simp add: ilog2_def n_def)
next
  case False
  define y where "y = 1 / x"
  define n where "n = \<lceil>y\<rceil> - 1"
  have y1: "1 < y" using False assms by (simp add: y_def)
  have n1: "1 \<le> n" using y1 unfolding n_def by linarith
  then have npos: "0 < n" by simp
  have ny: "of_int n < y" "y \<le> of_int (n + 1)" unfolding n_def by linarith+
  have b: "2 ^ nat (bitlen n - 1) \<le> n" "n < 2 ^ nat (bitlen n)"
    using bitlen_bounds [OF npos] by simp_all
  have bl: "1 \<le> bitlen n" using npos bitlen_eq_zero_iff [of n] bitlen_nonneg [of n] by linarith
  have up: "y \<le> 2 ^ nat (bitlen n)"
  proof -
    have "(of_int (n + 1) :: rat) \<le> of_int (2 ^ nat (bitlen n))"
      using b(2) by (simp only: of_int_le_iff; simp)
    also have "\<dots> = 2 ^ nat (bitlen n)" by simp
    finally show ?thesis using ny(2) by (rule order_trans [rotated])
  qed
  have dn: "2 ^ nat (bitlen n - 1) < y"
  proof -
    have "(2::rat) ^ nat (bitlen n - 1) = of_int (2 ^ nat (bitlen n - 1))" by simp
    also have "\<dots> \<le> of_int n" using b(1) by (simp only: of_int_le_iff)
    also have "\<dots> < y" by (rule ny(1))
    finally show ?thesis .
  qed
  have x: "x = 1 / y" using assms by (simp add: y_def)
  have lo: "(2::rat) powi (- bitlen n) \<le> x"
  proof -
    have "(2::rat) powi (- bitlen n) = 1 / 2 ^ nat (bitlen n)"
      using bl by (simp add: power_int_minus_divide power_int_nonneg_exp)
    also have "\<dots> \<le> 1 / y" using up y1 by (intro divide_left_mono) auto
    finally show ?thesis by (simp add: x)
  qed
  have hi: "x < (2::rat) powi (- bitlen n + 1)"
  proof -
    have "1 / y < 1 / (2::rat) ^ nat (bitlen n - 1)"
      using dn y1 by (intro divide_strict_left_mono) (auto intro: mult_pos_pos)
    also have "1 / (2::rat) ^ nat (bitlen n - 1) = 2 powi (- (bitlen n - 1))"
      using bl power_int_minus_divide [of "2::rat" "bitlen n - 1"]
        power_int_nonneg_exp [of "bitlen n - 1" "2::rat"]
      by simp
    finally show ?thesis by (simp add: x)
  qed
  show ?thesis using False lo hi by (simp add: ilog2_def n_def y_def)
qed

lemma ilog2_less: "0 < x \<Longrightarrow> x < 2 ^ n \<Longrightarrow> ilog2 x < int n"
proof -
  assume pos: "0 < x" and lt: "x < 2 ^ n"
  show ?thesis
  proof (cases "1 \<le> x")
    case True
    have "\<lfloor>x\<rfloor> < 2 ^ n" using lt by (simp add: floor_less_iff)
    then have "bitlen \<lfloor>x\<rfloor> \<le> int n"
      by (simp add: bitlen_le_iff_power)
    then show ?thesis using True by (simp add: ilog2_def)
  next
    case False
    then have "1 < 1 / x" using pos by simp
    then have "2 \<le> \<lceil>1 / x\<rceil>" by linarith
    then have "0 < bitlen (\<lceil>1 / x\<rceil> - 1)"
      using bitlen_eq_zero_iff [of "\<lceil>1 / x\<rceil> - 1"] bitlen_nonneg [of "\<lceil>1 / x\<rceil> - 1"] by linarith
    then show ?thesis using False by (simp add: ilog2_def)
  qed
qed

lemma rnd32_unfold:
  assumes nz: "q \<noteq> 0" and le: "\<bar>q\<bar> \<le> of_int N" and N: "N < 2 ^ 24"
  shows "\<exists>n. rnd32 q = Fin (sgn q * (of_int (rhe (\<bar>q\<bar> * 2 ^ n)) / 2 ^ n)) \<and> (\<bar>q\<bar> < 1 \<longrightarrow> 24 \<le> n)"
proof -
  define x where "x = \<bar>q\<bar>"
  define ex where "ex = max (- 149) (ilog2 x - 23)"
  define n where "n = nat (- ex)"
  have xpos: "0 < x" using nz by (simp add: x_def)
  have "x < 2 ^ 24"
  proof -
    have "x \<le> of_int N" using le by (simp add: x_def)
    also have "(of_int N :: rat) < of_int (2 ^ 24)" using N by (simp only: of_int_less_iff)
    finally show ?thesis by simp
  qed
  then have "ilog2 x < int 24" using xpos by (rule ilog2_less [rotated])
  then have exle: "ex \<le> 0" by (simp add: ex_def)
  have pw: "(2::rat) powi ex = 1 / 2 ^ n"
    using exle power_int_minus_divide [of "2::rat" "- ex"]
    by (simp add: n_def power_int_nonneg_exp)
  define m where "m = rhe (x * 2 ^ n)"
  define y where "y = (of_int m :: rat) / 2 ^ n"
  have mle: "m \<le> N * 2 ^ n"
  proof -
    have "x * 2 ^ n \<le> of_int N * 2 ^ n" using le by (simp add: x_def)
    then have "x * 2 ^ n \<le> of_int (N * 2 ^ n)" by simp
    then show ?thesis unfolding m_def by (rule rhe_le_int)
  qed
  have yle: "y \<le> of_int N"
  proof -
    have "(of_int m :: rat) \<le> of_int (N * 2 ^ n)" using mle by (simp only: of_int_le_iff)
    then have "(of_int m :: rat) \<le> of_int N * 2 ^ n" by simp
    then show ?thesis by (simp add: y_def divide_le_eq)
  qed
  have "y < 2 ^ 24"
  proof -
    have "(of_int N :: rat) < of_int (2 ^ 24)" using N by (simp only: of_int_less_iff)
    with yle show ?thesis by simp
  qed
  then have noov: "\<not> (2 ^ 24 - 1) * 2 powi 104 < y" by simp
  have small: "x < 1 \<Longrightarrow> 24 \<le> n"
  proof -
    assume "x < 1"
    then have "x < 2 ^ 0" by simp
    then have "ilog2 x < int 0" using xpos by (rule ilog2_less [rotated])
    then have "ex \<le> - 24" by (simp add: ex_def)
    then show ?thesis by (simp add: n_def)
  qed
  have e1: "x / 2 powi ex = x * 2 ^ n" by (simp add: pw)
  have e2: "of_int (rhe (x * 2 ^ n)) * 2 powi ex = y" by (simp add: pw y_def m_def)
  have "rnd32 q =
      (if (2 ^ 24 - 1) * 2 powi 104 < (of_int (rhe (x / 2 powi ex)) :: rat) * 2 powi ex
       then (if 0 < q then PInf else NInf)
       else Fin (if 0 < q then of_int (rhe (x / 2 powi ex)) * 2 powi ex
                 else - (of_int (rhe (x / 2 powi ex)) * 2 powi ex)))"
    using nz by (simp add: rnd32_def rnd_def Let_def x_def ex_def)
  then have "rnd32 q = Fin (if 0 < q then y else - y)"
    unfolding e1 e2 using noov by simp
  moreover have "(if 0 < q then y else - y) = sgn q * y"
    using nz by (auto simp: sgn_if)
  ultimately show ?thesis
    using small by (auto simp: y_def m_def x_def intro!: exI [of _ n])
qed

lemma rnd32_int: "\<bar>n\<bar> < 2 ^ 24 \<Longrightarrow> rnd32 (of_int n) = Fin (of_int n)"
proof (cases "n = 0")
  case True
  then show ?thesis by (simp add: rnd32_def rnd_def)
next
  case False
  assume lt: "\<bar>n\<bar> < 2 ^ 24"
  have "\<bar>of_int n :: rat\<bar> \<le> of_int \<bar>n\<bar>" by simp
  from rnd32_unfold [OF _ this lt] False
  obtain k where k: "rnd32 (of_int n) = Fin (sgn (of_int n) * (of_int (rhe (\<bar>of_int n\<bar> * 2 ^ k)) / 2 ^ k))"
    by auto
  have "\<bar>of_int n :: rat\<bar> * 2 ^ k = of_int (\<bar>n\<bar> * 2 ^ k)" by simp
  then have "rhe (\<bar>of_int n\<bar> * 2 ^ k) = \<bar>n\<bar> * 2 ^ k" by (simp only: rhe_of_int)
  then show ?thesis using k by (simp add: sgn_if)
qed

lemma rnd32_bounded:
  assumes le: "\<bar>q\<bar> \<le> of_int N" and N: "N < 2 ^ 24"
  shows "\<exists>y. rnd32 q = Fin y \<and> \<bar>y\<bar> \<le> of_int N \<and> (0 \<le> q \<longrightarrow> 0 \<le> y)"
proof (cases "q = 0")
  case True
  then show ?thesis using le by (simp add: rnd32_def rnd_def)
next
  case False
  from rnd32_unfold [OF False le N]
  obtain n where n: "rnd32 q = Fin (sgn q * (of_int (rhe (\<bar>q\<bar> * 2 ^ n)) / 2 ^ n))" by auto
  define m where "m = rhe (\<bar>q\<bar> * 2 ^ n)"
  define z where "z = (of_int m :: rat) / 2 ^ n"
  have m0: "0 \<le> m" unfolding m_def by (rule rhe_nonneg) simp
  have "\<bar>q\<bar> * 2 ^ n \<le> of_int N * 2 ^ n" using le by simp
  then have "\<bar>q\<bar> * 2 ^ n \<le> of_int (N * 2 ^ n)" by simp
  then have "m \<le> N * 2 ^ n" unfolding m_def by (rule rhe_le_int)
  then have "(of_int m :: rat) \<le> of_int (N * 2 ^ n)" by (simp only: of_int_le_iff)
  then have "(of_int m :: rat) \<le> of_int N * 2 ^ n" by simp
  then have zle: "z \<le> of_int N" by (simp add: z_def divide_le_eq)
  have z0: "0 \<le> z" using m0 by (simp add: z_def)
  have "rnd32 q = Fin (sgn q * z)" using n by (simp add: z_def m_def)
  moreover have "\<bar>sgn q * z\<bar> \<le> of_int N" using zle z0 by (simp add: abs_mult sgn_if)
  moreover have "0 \<le> q \<longrightarrow> 0 \<le> sgn q * z" using z0 by (simp add: sgn_if)
  ultimately show ?thesis by blast
qed

lemma rnd32_error:
  assumes le: "\<bar>q\<bar> \<le> 1"
  shows "\<exists>y. rnd32 q = Fin y \<and> \<bar>y - q\<bar> \<le> 1 / 2 ^ 25"
proof (cases "\<bar>q\<bar> < 1")
  case False
  then have "q = of_int 1 \<or> q = of_int (- 1)" using le by auto
  then show ?thesis
    using rnd32_int [of 1] rnd32_int [of "- 1"] by auto
next
  case True
  show ?thesis
  proof (cases "q = 0")
    case True
    then show ?thesis by (simp add: rnd32_def rnd_def)
  next
    case False
    have "\<bar>q\<bar> \<le> of_int 1" using le by simp
    from rnd32_unfold [OF False this] True
    obtain n where n: "rnd32 q = Fin (sgn q * (of_int (rhe (\<bar>q\<bar> * 2 ^ n)) / 2 ^ n))"
      and n24: "24 \<le> n" by auto
    define m where "m = rhe (\<bar>q\<bar> * 2 ^ n)"
    have "\<bar>of_int m - \<bar>q\<bar> * 2 ^ n\<bar> \<le> 1 / 2" unfolding m_def by (rule rhe_err)
    then have "\<bar>of_int m - \<bar>q\<bar> * 2 ^ n\<bar> / 2 ^ n \<le> (1 / 2) / 2 ^ n"
      by (intro divide_right_mono) auto
    moreover have "\<bar>of_int m - \<bar>q\<bar> * 2 ^ n\<bar> / 2 ^ n = \<bar>of_int m / 2 ^ n - \<bar>q\<bar>\<bar>"
    proof -
      have "of_int m / 2 ^ n - \<bar>q\<bar> = (of_int m - \<bar>q\<bar> * 2 ^ n) / 2 ^ n"
        by (simp add: diff_divide_distrib)
      then show ?thesis by (simp add: abs_divide)
    qed
    moreover have "(1 / 2) / (2::rat) ^ n \<le> 1 / 2 ^ 25"
    proof -
      have "(2::rat) ^ 25 \<le> 2 ^ (Suc n)" using n24 by (intro power_increasing) auto
      then have "1 / (2::rat) ^ (Suc n) \<le> 1 / 2 ^ 25"
        by (intro divide_left_mono) auto
      then show ?thesis by simp
    qed
    ultimately have err: "\<bar>of_int m / 2 ^ n - \<bar>q\<bar>\<bar> \<le> 1 / 2 ^ 25" by linarith
    have "\<bar>sgn q * (of_int m / 2 ^ n) - q\<bar> = \<bar>of_int m / 2 ^ n - \<bar>q\<bar>\<bar>"
      using False by (auto simp: sgn_if abs_if)
    then show ?thesis using n err by (auto simp: m_def)
  qed
qed

section \<open>What the two loops of \<open>calibrate\<close> compute\<close>

lemma calibrate_sample_frame:
  "threshold (calibrate_sample sensor z st) = threshold st \<and>
   offset (calibrate_sample sensor z st) = offset st \<and>
   Rail_Enable_12V (calibrate_sample sensor z st) = Rail_Enable_12V st \<and>
   rail_writes (calibrate_sample sensor z st) = rail_writes st \<and>
   sd_log (calibrate_sample sensor z st) = sd_log st \<and>
   banners (calibrate_sample sensor z st) = banners st \<and>
   measured (calibrate_sample sensor z st) = measured st + (16 - z)"
proof (induction sensor z st rule: calibrate_sample.induct)
  case (1 sensor z st)
  show ?case
  proof (cases "z < 16")
    case True
    define st' where "st' = st\<lparr>ndvi := (ndvi st)[z := calibrate_ndvi (sensor (measured st))],
                 measured := measured st + 1\<rparr>"
    have unf: "calibrate_sample sensor z st = calibrate_sample sensor (z + 1) st'"
      using True by (subst calibrate_sample.simps) (simp add: st'_def)
    show ?thesis
      unfolding unf using "1.IH" [OF True] True by (simp add: st'_def)
  next
    case False
    then show ?thesis by (subst (1 2 3 4 5 6 7) calibrate_sample.simps) simp
  qed
qed

lemma calibrate_sample_nth:
  "z \<le> 16 \<Longrightarrow> length (ndvi st) = 16 \<Longrightarrow>
   length (ndvi (calibrate_sample sensor z st)) = 16 \<and>
   (\<forall>n<16. ndvi (calibrate_sample sensor z st) ! n =
      (if n < z then ndvi st ! n else calibrate_ndvi (sensor (measured st + (n - z)))))"
proof (induction sensor z st rule: calibrate_sample.induct)
  case (1 sensor z st)
  show ?case
  proof (cases "z < 16")
    case True
    define st' where "st' = st\<lparr>ndvi := (ndvi st)[z := calibrate_ndvi (sensor (measured st))],
                 measured := measured st + 1\<rparr>"
    have unf: "calibrate_sample sensor z st = calibrate_sample sensor (z + 1) st'"
      using True by (subst calibrate_sample.simps) (simp add: st'_def)
    have len: "length (ndvi st') = 16" using "1.prems" by (simp add: st'_def)
    have IH: "length (ndvi (calibrate_sample sensor (z + 1) st')) = 16 \<and>
      (\<forall>n<16. ndvi (calibrate_sample sensor (z + 1) st') ! n =
         (if n < z + 1 then ndvi st' ! n else calibrate_ndvi (sensor (measured st' + (n - (z + 1))))))"
      using "1.IH" [OF True] True len by (simp add: st'_def)
    show ?thesis
      unfolding unf
    proof (intro conjI allI impI)
      show "length (ndvi (calibrate_sample sensor (z + 1) st')) = 16" using IH by simp
    next
      fix n :: nat assume n: "n < 16"
      have "ndvi (calibrate_sample sensor (z + 1) st') ! n =
         (if n < z + 1 then ndvi st' ! n else calibrate_ndvi (sensor (measured st' + (n - (z + 1)))))"
        using IH n by blast
      also have "\<dots> = (if n < z then ndvi st ! n else calibrate_ndvi (sensor (measured st + (n - z))))"
      proof (cases "n < z")
        case True
        then show ?thesis by (simp add: st'_def)
      next
        case False
        show ?thesis
        proof (cases "n = z")
          case True
          then show ?thesis using "1.prems" n by (simp add: st'_def)
        next
          case neq: False
          with False have "z + 1 \<le> n" by simp
          then have "measured st' + (n - (z + 1)) = measured st + (n - z)" by (simp add: st'_def)
          then show ?thesis using False neq by simp
        qed
      qed
      finally show "ndvi (calibrate_sample sensor (z + 1) st') ! n =
         (if n < z then ndvi st ! n else calibrate_ndvi (sensor (measured st + (n - z))))" .
    qed
  next
    case False
    then show ?thesis using "1.prems" by (subst (1 2) calibrate_sample.simps) simp
  qed
qed

lemma calibrate_sample_0:
  assumes "length (ndvi st) = 16"
  shows "calibrate_sample sensor 0 st =
     st\<lparr>ndvi := map (\<lambda>n. calibrate_ndvi (sensor (measured st + n))) [0..<16],
        measured := measured st + 16\<rparr>"
proof -
  have "ndvi (calibrate_sample sensor 0 st) = map (\<lambda>n. calibrate_ndvi (sensor (measured st + n))) [0..<16]"
    using calibrate_sample_nth [of 0 st sensor] assms
    by (intro nth_equalityI) auto
  then show ?thesis
    using calibrate_sample_frame [of sensor 0 st] by (intro device.equality) simp_all
qed

lemma calibrate_sum_fold:
  "n \<le> 16 \<Longrightarrow> length (ndvi st) = 16 \<Longrightarrow>
   calibrate_sum n st = st\<lparr>threshold := foldl fadd32 (threshold st) (drop n (ndvi st))\<rparr>"
proof (induction n st rule: calibrate_sum.induct)
  case (1 n st)
  show ?case
  proof (cases "n < 16")
    case True
    define st' where "st' = st\<lparr>threshold := fadd32 (threshold st) (ndvi st ! n)\<rparr>"
    have unf: "calibrate_sum n st = calibrate_sum (n + 1) st'"
      using True by (subst calibrate_sum.simps) (simp add: st'_def)
    have "calibrate_sum (n + 1) st' = st'\<lparr>threshold := foldl fadd32 (threshold st') (drop (n + 1) (ndvi st'))\<rparr>"
      using "1.IH" [OF True] True "1.prems" by (simp add: st'_def)
    moreover have "drop n (ndvi st) = ndvi st ! n # drop (n + 1) (ndvi st)"
      using True "1.prems" by (simp add: Cons_nth_drop_Suc)
    ultimately show ?thesis unfolding unf by (simp add: st'_def)
  next
    case False
    then show ?thesis using "1.prems" by (subst calibrate_sum.simps) simp
  qed
qed

lemma calibrate_eq:
  assumes "length (ndvi st) = 16"
  shows "calibrate sensor st =
     st\<lparr>ndvi := batch sensor (measured st),
        measured := measured st + 16,
        threshold := fadd32 (fdiv32 (foldl fadd32 (threshold st) (batch sensor (measured st))) (f32_of_int 16)) (offset st),
        Rail_Enable_12V := False,
        rail_writes := rail_writes st @ [True, False]\<rparr>"
proof -
  define st1 where "st1 = st\<lparr>ndvi := batch sensor (measured st), measured := measured st + 16\<rparr>"
  have s1: "calibrate_sample sensor 0 st = st1"
    using calibrate_sample_0 [OF assms] by (simp add: st1_def batch_def)
  have len1: "length (ndvi st1) = 16" by (simp add: st1_def batch_def)
  have s2: "calibrate_sum 0 st1 = st1\<lparr>threshold := foldl fadd32 (threshold st1) (ndvi st1)\<rparr>"
    using calibrate_sum_fold [of 0 st1] len1 by simp
  show ?thesis
    by (simp add: calibrate_def Let_def s1 s2 digitalWrite_12V_def) (simp add: st1_def)
qed

section \<open>The index as a rounded quotient\<close>

lemma band_bounds: "0 \<le> uint (x :: 16 word) \<and> uint x \<le> 65535"
  using uint_lt2p [of x] by simp

lemma numBands_bounds: "0 \<le> numBands smp \<and> numBands smp \<le> 393210"
  using band_bounds [of "u smp"] band_bounds [of "v smp"] band_bounds [of "w smp"]
    band_bounds [of "e smp"] band_bounds [of "f smp"] band_bounds [of "g smp"]
  by (simp add: numBands_def)

lemma denomBands_bounds: "0 \<le> denomBands smp \<and> denomBands smp \<le> 196605"
  using band_bounds [of "b smp"] band_bounds [of "c smp"] band_bounds [of "d smp"]
  by (simp add: denomBands_def)

lemma all_bands_bounds: "0 \<le> all_bands smp \<and> all_bands smp \<le> 1179630"
  using band_bounds [of "a smp"] band_bounds [of "b smp"] band_bounds [of "c smp"]
    band_bounds [of "d smp"] band_bounds [of "e smp"] band_bounds [of "f smp"]
    band_bounds [of "g smp"] band_bounds [of "h smp"] band_bounds [of "i smp"]
    band_bounds [of "j smp"] band_bounds [of "k smp"] band_bounds [of "l smp"]
    band_bounds [of "r smp"] band_bounds [of "s smp"] band_bounds [of "t smp"]
    band_bounds [of "u smp"] band_bounds [of "v smp"] band_bounds [of "w smp"]
  by (simp add: all_bands_def)

lemma f32_of_int_exact: "\<bar>n\<bar> < 2 ^ 24 \<Longrightarrow> f32_of_int n = Fin (of_int n)"
  by (simp add: f32_of_int_def rnd32_int)

lemma loop_nd_exact: "loop_nd smp = Fin (of_int (numBands smp - 2 * denomBands smp))"
proof -
  have "\<bar>numBands smp - 2 * denomBands smp\<bar> < 2 ^ 24"
    using numBands_bounds [of smp] denomBands_bounds [of smp] by simp linarith
  then have "f32_of_int (numBands smp - 2 * denomBands smp) = Fin (of_int (numBands smp - 2 * denomBands smp))"
    by (rule f32_of_int_exact)
  then show ?thesis by (simp add: loop_nd_def numBands_def denomBands_def)
qed

lemma loop_vib_exact: "loop_vib smp = Fin (of_int (denominator smp))"
proof -
  have "\<bar>numBands smp + 2 * denomBands smp\<bar> < 2 ^ 24"
    using numBands_bounds [of smp] denomBands_bounds [of smp] by simp
  then have "f32_of_int (numBands smp + 2 * denomBands smp) = Fin (of_int (numBands smp + 2 * denomBands smp))"
    by (rule f32_of_int_exact)
  then show ?thesis by (simp add: loop_vib_def denominator_def numBands_def denomBands_def)
qed

lemma ndvib_eq:
  "ndvib smp = (if denominator smp = 0 then NaN else rnd32 (spec_index smp))"
proof -
  have "denominator smp = 0 \<Longrightarrow> numBands smp - 2 * denomBands smp = 0"
    using numBands_bounds [of smp] denomBands_bounds [of smp] by (simp add: denominator_def)
  then show ?thesis
    by (auto simp: ndvib_def loop_nd_exact loop_vib_exact spec_index_def)
qed

lemma calibrate_ndvi_eq_ndvib: "calibrate_ndvi smp = ndvib smp"
  by (simp add: calibrate_ndvi_def calibrate_nd_def calibrate_vib_def ndvib_def loop_nd_def loop_vib_def)

lemma spec_index_abs_le: "denominator smp \<noteq> 0 \<Longrightarrow> \<bar>spec_index smp\<bar> \<le> 1"
proof -
  assume nz: "denominator smp \<noteq> 0"
  have pos: "0 < denominator smp"
    using nz numBands_bounds [of smp] denomBands_bounds [of smp] by (simp add: denominator_def)
  have "\<bar>numBands smp - 2 * denomBands smp\<bar> \<le> denominator smp"
    using numBands_bounds [of smp] denomBands_bounds [of smp] unfolding denominator_def by linarith
  then have "\<bar>of_int (numBands smp - 2 * denomBands smp) :: rat\<bar> \<le> of_int (denominator smp)"
    by (metis of_int_abs of_int_le_iff)
  then show ?thesis using pos by (simp add: spec_index_def divide_le_eq)
qed

lemma ndvib_finite:
  assumes "denominator smp \<noteq> 0"
  shows "\<exists>y. ndvib smp = Fin y \<and> \<bar>y\<bar> \<le> 1 \<and> \<bar>y - spec_index smp\<bar> \<le> 1 / 2 ^ 25"
proof -
  have le: "\<bar>spec_index smp\<bar> \<le> 1" using assms by (rule spec_index_abs_le)
  from rnd32_error [OF le] obtain y where y: "rnd32 (spec_index smp) = Fin y"
    and err: "\<bar>y - spec_index smp\<bar> \<le> 1 / 2 ^ 25" by auto
  have "\<bar>spec_index smp\<bar> \<le> of_int 1" using le by simp
  from rnd32_bounded [OF this] y have "\<bar>y\<bar> \<le> 1" by auto
  then show ?thesis using y err assms by (simp add: ndvib_eq)
qed

lemma cycle_fields:
  "threshold (cycle sensor st) = threshold st"
  "offset (cycle sensor st) = offset st"
  "ndvi (cycle sensor st) = ndvi st"
  "measured (cycle sensor st) = measured st + 1"
  "Rail_Enable_12V (cycle sensor st) = flt (threshold st) (ndvib (sensor (measured st)))"
  "rail_writes (cycle sensor st) = rail_writes st @ [flt (threshold st) (ndvib (sensor (measured st)))]"
  "banners (cycle sensor st) = banners st @ [decide (threshold st) (ndvib (sensor (measured st)))]"
  by (simp_all add: cycle_def Let_def digitalWrite_12V_def decide_def)

lemma scenario_values:
  "spec_index scenario_sample = 3 / 5"
  "ndvib scenario_sample = Fin (5033165 / 8388608)"
  "rnd32 (3 / 5) = Fin (5033165 / 8388608)"
  "rnd32 (103 / 200) = Fin (4320133 / 8388608)"
  "denominator scenario_sample = 1500"
  by code_simp+

section \<open>The state at power-on, and \<open>calibrate\<close> as one assignment\<close>

lemma boot_fields:
  "threshold boot = Fin 0"
  "length (ndvi boot) = 16"
  "measured boot = 0"
  "rail_writes boot = []"
  "banners boot = []"
  by (simp_all add: boot_def f32_of_int_def rnd32_def rnd_def)

lemma offset_boot: "offset boot = Fin (16106127 / 1073741824)"
  by code_simp

lemma rnd32_0015: "rnd32 (3 / 200) = Fin (16106127 / 1073741824)"
  by code_simp

lemma f32_of_int_16: "f32_of_int 16 = Fin 16"
  using f32_of_int_exact [of 16] by simp

lemma length_batch: "length (batch sensor m) = 16"
  by (simp add: batch_def)

lemma nth_batch: "n < 16 \<Longrightarrow> batch sensor m ! n = calibrate_ndvi (sensor (m + n))"
  by (simp add: batch_def)

lemma calibrate_threshold:
  assumes "length (ndvi st) = 16"
  shows "threshold (calibrate sensor st) =
     fadd32 (fdiv32 (foldl fadd32 (threshold st) (batch sensor (measured st))) (Fin 16)) (offset st)"
  by (simp add: calibrate_eq [OF assms] f32_of_int_16)

lemma calibrate_fields:
  assumes "length (ndvi st) = 16"
  shows "ndvi (calibrate sensor st) = batch sensor (measured st)"
    "measured (calibrate sensor st) = measured st + 16"
    "offset (calibrate sensor st) = offset st"
    "Rail_Enable_12V (calibrate sensor st) = False"
    "rail_writes (calibrate sensor st) = rail_writes st @ [True, False]"
  by (simp_all add: calibrate_eq [OF assms])

lemma half_index: "calibrate_ndvi half_sample = Fin (1 / 2)"
  by code_simp

lemma batch_half: "batch half_stream m = replicate 16 (Fin (1 / 2))"
  by (intro nth_equalityI) (simp_all add: length_batch nth_batch half_stream_def half_index)

lemma half_mean: "mean_plus_offset (replicate 16 (Fin (1 / 2))) (Fin (16106127 / 1073741824)) = Fin (4320133 / 8388608)"
  by code_simp

lemma half_again:
  "fadd32 (fdiv32 (foldl fadd32 (Fin (4320133 / 8388608)) (replicate 16 (Fin (1 / 2)))) (Fin 16))
     (Fin (16106127 / 1073741824)) = Fin (4590141 / 8388608)"
  by code_simp

lemma all_half_batch:
  assumes "\<forall>n<16. calibrate_ndvi (sensor n) = Fin (1 / 2)"
  shows "batch sensor 0 = replicate 16 (Fin (1 / 2))"
  using assms by (intro nth_equalityI) (simp_all add: length_batch nth_batch)

lemma run_0: "run sensor 0 = (At_setup, boot)"
  by (simp add: run_def)

lemma run_Suc: "run sensor (Suc n) = step sensor (run sensor n)"
  by (simp add: run_def)

lemma run_1: "run sensor (Suc 0) = (At_loop, sketch_setup boot)"
  by (simp add: run_def)

lemma run_2: "run sensor 2 = (In_while, calibrate sensor (sketch_setup boot))"
  by (simp add: run_def numeral_2_eq_2)

lemma setup_fields:
  "threshold (sketch_setup st) = threshold st"
  "ndvi (sketch_setup st) = ndvi st"
  "offset (sketch_setup st) = offset st"
  "measured (sketch_setup st) = measured st"
  "banners (sketch_setup st) = banners st"
  "rail_writes (sketch_setup st) = rail_writes st @ [False]"
  by (simp_all add: sketch_setup_def digitalWrite_12V_def)

lemma calibrated_eq: "calibrated sensor = calibrate sensor (sketch_setup boot)"
  by (simp add: calibrated_def run_2)

lemma calibrated_fields:
  "threshold (calibrated sensor) =
     fadd32 (fdiv32 (foldl fadd32 (Fin 0) (batch sensor 0)) (Fin 16)) (offset boot)"
  "ndvi (calibrated sensor) = batch sensor 0"
  "measured (calibrated sensor) = 16"
  "offset (calibrated sensor) = offset boot"
  "rail_writes (calibrated sensor) = [False, True, False]"
  by (simp_all add: calibrated_eq calibrate_threshold calibrate_fields setup_fields boot_fields)

lemma calibrated_half: "threshold (calibrated half_stream) = Fin (4320133 / 8388608)"
  using half_mean
  by (simp add: calibrated_fields offset_boot batch_half mean_plus_offset_def)

lemma calibrated_half_twice:
  "threshold (calibrate half_stream (calibrated half_stream)) = Fin (4590141 / 8388608)"
  using half_again
  by (simp add: calibrate_threshold calibrated_fields(2-5) offset_boot batch_half
      length_batch calibrated_half)

lemma near_index: "calibrate_ndvi near_sample = Fin (- (16106095 / 67108864))"
  by code_simp

lemma zero_index: "calibrate_ndvi zero_sample = Fin 0"
  by code_simp

lemma unit_index: "calibrate_ndvi unit_sample = Fin 1"
  by code_simp

lemma batch_absorbed_0:
  "batch absorbed_stream 0 = Fin (- (16106095 / 67108864)) # replicate 15 (Fin 0)"
  by code_simp

lemma batch_absorbed_16: "batch absorbed_stream 16 = replicate 16 (Fin 1)"
  by code_simp

lemma absorbed_mean:
  "mean_plus_offset (Fin (- (16106095 / 67108864)) # replicate 15 (Fin 0)) (Fin (16106127 / 1073741824))
     = Fin (1 / 33554432)"
  by code_simp

lemma unit_mean:
  "mean_plus_offset (replicate 16 (Fin 1)) (Fin (16106127 / 1073741824)) = Fin (8514437 / 8388608)"
  by code_simp

lemma unit_again:
  "fadd32 (fdiv32 (foldl fadd32 (Fin (1 / 33554432)) (replicate 16 (Fin 1))) (Fin 16))
     (Fin (16106127 / 1073741824)) = Fin (8514437 / 8388608)"
  by code_simp

lemma calibrated_absorbed: "threshold (calibrated absorbed_stream) = Fin (1 / 33554432)"
  using absorbed_mean
  by (simp add: calibrated_fields offset_boot batch_absorbed_0 mean_plus_offset_def)

lemma calibrated_absorbed_twice:
  "threshold (calibrate absorbed_stream (calibrated absorbed_stream)) = Fin (8514437 / 8388608)"
  using unit_again
  by (simp add: calibrate_threshold calibrated_fields(2-5) offset_boot batch_absorbed_16
      length_batch calibrated_absorbed)

section \<open>NaN and finiteness through the summing loop\<close>

lemma fadd_NaN_right: "fadd R x NaN = NaN"
  by (cases x) simp_all

lemma foldl_fadd_NaN: "foldl (fadd R) NaN xs = NaN"
  by (induction xs) simp_all

lemma foldl_fadd_NaN_mem: "NaN \<in> set xs \<Longrightarrow> foldl (fadd R) x xs = NaN"
proof (induction xs arbitrary: x)
  case Nil
  then show ?case by simp
next
  case (Cons y ys)
  show ?case
  proof (cases "y = NaN")
    case True
    then show ?thesis by (simp add: fadd_NaN_right foldl_fadd_NaN)
  next
    case False
    with Cons.prems have "NaN \<in> set ys" by simp
    then show ?thesis by (simp add: Cons.IH)
  qed
qed

lemma foldl_fadd32_bounded:
  assumes "\<forall>x\<in>set xs. \<exists>y. x = Fin y \<and> \<bar>y\<bar> \<le> 1"
    and "\<bar>z\<bar> \<le> of_int N" and "N + int (length xs) < 2 ^ 24"
  shows "\<exists>y. foldl fadd32 (Fin z) xs = Fin y \<and> \<bar>y\<bar> \<le> of_int (N + int (length xs))"
  using assms
proof (induction xs arbitrary: z N)
  case Nil
  then show ?case by simp
next
  case (Cons x xs)
  from Cons.prems(1) obtain y where y: "x = Fin y" "\<bar>y\<bar> \<le> 1" by auto
  have "\<bar>z + y\<bar> \<le> of_int (N + 1)" using y(2) Cons.prems(2) by simp
  moreover have "N + 1 < 2 ^ 24" using Cons.prems(3) by simp
  ultimately obtain z' where z': "rnd32 (z + y) = Fin z'" "\<bar>z'\<bar> \<le> of_int (N + 1)"
    using rnd32_bounded [of "z + y" "N + 1"] by blast
  have "\<exists>y. foldl fadd32 (Fin z') xs = Fin y \<and> \<bar>y\<bar> \<le> of_int (N + 1 + int (length xs))"
    using Cons.prems(1,3) z'(2) by (intro Cons.IH) auto
  then show ?case using y z' by (simp add: add.commute add.left_commute)
qed

lemma calibrate_ndvi_eq:
  "calibrate_ndvi smp = (if denominator smp = 0 then NaN else rnd32 (spec_index smp))"
  by (simp add: calibrate_ndvi_eq_ndvib ndvib_eq)

lemma calibrate_ndvi_finite:
  "denominator smp \<noteq> 0 \<Longrightarrow> \<exists>y. calibrate_ndvi smp = Fin y \<and> \<bar>y\<bar> \<le> 1"
  using ndvib_finite [of smp] by (auto simp: calibrate_ndvi_eq_ndvib)

lemma calibrate_vib_exact: "calibrate_vib smp = Fin (of_int (denominator smp))"
  using loop_vib_exact [of smp] by (simp add: calibrate_vib_def loop_vib_def)

lemma threshold_NaN:
  assumes len: "length (ndvi st) = 16" and n: "n < 16"
    and z: "denominator (sensor (measured st + n)) = 0"
  shows "threshold (calibrate sensor st) = NaN"
proof -
  have "batch sensor (measured st) ! n = NaN"
    using n z by (simp add: nth_batch calibrate_ndvi_eq)
  then have "NaN \<in> set (batch sensor (measured st))"
    using n by (metis length_batch nth_mem)
  then have "foldl fadd32 (threshold st) (batch sensor (measured st)) = NaN"
    by (rule foldl_fadd_NaN_mem)
  then show ?thesis by (simp add: calibrate_threshold [OF len])
qed

lemma threshold_finite_calibrated:
  assumes nz: "\<forall>n<16. denominator (sensor n) \<noteq> 0"
  shows "is_finite (threshold (calibrated sensor))"
proof -
  have "\<forall>x\<in>set (batch sensor 0). \<exists>y. x = Fin y \<and> \<bar>y\<bar> \<le> 1"
    using nz by (auto simp: batch_def intro: calibrate_ndvi_finite)
  moreover have "\<bar>0 :: rat\<bar> \<le> of_int 0" by simp
  moreover have "0 + int (length (batch sensor 0)) < 2 ^ 24" by (simp add: length_batch)
  ultimately obtain y where y: "foldl fadd32 (Fin 0) (batch sensor 0) = Fin y"
    "\<bar>y\<bar> \<le> of_int (0 + int (length (batch sensor 0)))"
    using foldl_fadd32_bounded [of "batch sensor 0" 0 0] by blast
  have "\<bar>y / 16\<bar> \<le> of_int 1" using y(2) by (simp add: length_batch)
  then obtain m where m: "rnd32 (y / 16) = Fin m" "\<bar>m\<bar> \<le> of_int 1"
    using rnd32_bounded [of "y / 16" 1] by auto
  have "\<bar>m + 16106127 / 1073741824\<bar> \<le> of_int 2" using m(2) by simp
  then obtain x where x: "rnd32 (m + 16106127 / 1073741824) = Fin x"
    using rnd32_bounded [of "m + 16106127 / 1073741824" 2] by auto
  show ?thesis
    using y(1) m(1) x
    by (simp add: calibrated_fields offset_boot is_finite_def)
qed

lemma dark_values:
  "denominator dark_sample = 0"
  "denominator half_sample = 8"
  "calibrate_ndvi dark_sample = NaN"
  by code_simp+

section \<open>The normalized values\<close>

lemma total_exact: "total_bands smp = Fin (of_int (all_bands smp))"
proof -
  have "\<bar>all_bands smp\<bar> < 2 ^ 24" using all_bands_bounds [of smp] by simp
  then have "f32_of_int (all_bands smp) = Fin (of_int (all_bands smp))" by (rule f32_of_int_exact)
  then show ?thesis by (simp add: total_bands_def all_bands_def)
qed

lemma band_le_all_bands:
  "uint (a smp) \<le> all_bands smp" "uint (b smp) \<le> all_bands smp" "uint (c smp) \<le> all_bands smp"
  "uint (d smp) \<le> all_bands smp" "uint (g smp) \<le> all_bands smp" "uint (j smp) \<le> all_bands smp"
  "uint (k smp) \<le> all_bands smp" "uint (r smp) \<le> all_bands smp" "uint (s smp) \<le> all_bands smp"
  "uint (t smp) \<le> all_bands smp" "uint (u smp) \<le> all_bands smp" "uint (v smp) \<le> all_bands smp"
  "uint (w smp) \<le> all_bands smp"
  using band_bounds [of "a smp"] band_bounds [of "b smp"] band_bounds [of "c smp"]
    band_bounds [of "d smp"] band_bounds [of "e smp"] band_bounds [of "f smp"]
    band_bounds [of "g smp"] band_bounds [of "h smp"] band_bounds [of "i smp"]
    band_bounds [of "j smp"] band_bounds [of "k smp"] band_bounds [of "l smp"]
    band_bounds [of "r smp"] band_bounds [of "s smp"] band_bounds [of "t smp"]
    band_bounds [of "u smp"] band_bounds [of "v smp"] band_bounds [of "w smp"]
  by (simp_all add: all_bands_def)

lemma fraction_finite_int:
  assumes "0 \<le> n" and "n \<le> N" and "0 < N" and "N < 2 ^ 24"
  shows "\<exists>y. fdiv32 (f32_of_int n) (Fin (of_int N)) = Fin y \<and> 0 \<le> y \<and> y \<le> 1"
proof -
  have "\<bar>n\<bar> < 2 ^ 24" using assms by simp
  then have n: "f32_of_int n = Fin (of_int n)" by (rule f32_of_int_exact)
  define q :: rat where "q = of_int n / of_int N"
  have q0: "0 \<le> q" using assms by (simp add: q_def)
  have q1: "q \<le> 1" using assms by (simp add: q_def divide_le_eq)
  have "\<bar>q\<bar> \<le> of_int 1" using q0 q1 by simp
  then obtain y where y: "rnd32 q = Fin y" "\<bar>y\<bar> \<le> of_int 1" "0 \<le> y"
    using rnd32_bounded [of q 1] q0 by auto
  have "fdiv32 (f32_of_int n) (Fin (of_int N)) = rnd32 q"
    using assms by (simp add: n q_def)
  then show ?thesis using y by auto
qed

lemma fraction_finite:
  assumes "uint x \<le> all_bands smp" and "all_bands smp \<noteq> 0"
  shows "\<exists>y. fdiv32 (f32_of_int (uint (x :: 16 word))) (total_bands smp) = Fin y \<and> 0 \<le> y \<and> y \<le> 1"
proof -
  have "0 \<le> uint x" by simp
  moreover have "0 < all_bands smp" "all_bands smp < 2 ^ 24"
    using assms(2) all_bands_bounds [of smp] by simp_all
  ultimately show ?thesis
    unfolding total_exact using assms(1) by (intro fraction_finite_int)
qed

lemma fraction_NaN:
  assumes "uint x \<le> all_bands smp" and "all_bands smp = 0"
  shows "fdiv32 (f32_of_int (uint (x :: 16 word))) (total_bands smp) = NaN"
proof -
  have "uint x = 0" using assms band_bounds [of x] by simp
  then show ?thesis
    using assms(2) f32_of_int_exact [of 0] by (simp add: total_exact)
qed

lemma fmul_NaN_right: "fmul R x NaN = NaN"
  by (cases x) simp_all

lemma fdiv_NaN_right: "fdiv R x NaN = NaN"
  by (cases x) simp_all

lemma normalized_bands_finite:
  assumes "all_bands smp \<noteq> 0"
  shows "\<forall>q\<in>set normalized_bands. \<exists>y. q smp = Fin y \<and> 0 \<le> y \<and> y \<le> 1"
  using assms
  by (simp add: normalized_bands_def a_w_def b_w_def c_w_def d_w_def e_w_def f_w_def g_w_def
      j_w_def k_w_def r_w_def s_w_def t_w_def u_w_def v_w_def w_w_def
      fraction_finite band_le_all_bands)

lemma normalized_bands_NaN:
  assumes "all_bands smp = 0"
  shows "\<forall>q\<in>set normalized_bands. q smp = NaN"
proof -
  have "fdiv32 (f32_of_int (uint x)) (total_bands smp) = NaN" if "uint x \<le> all_bands smp"
    for x :: "16 word"
    using that assms by (rule fraction_NaN)
  then show ?thesis
    unfolding normalized_bands_def a_w_def b_w_def c_w_def d_w_def e_w_def f_w_def g_w_def
      j_w_def k_w_def r_w_def s_w_def t_w_def u_w_def v_w_def w_w_def
    using band_le_all_bands [of smp] by simp
qed

lemma normalized_indices_NaN:
  assumes "all_bands smp = 0"
  shows "\<forall>q\<in>set normalized_indices. q smp = NaN"
proof -
  have n: "b_w smp = NaN" "c_w smp = NaN" "d_w smp = NaN" "e_w smp = NaN" "f_w smp = NaN"
    "g_w smp = NaN" "s_w smp = NaN" "u_w smp = NaN" "v_w smp = NaN" "w_w smp = NaN"
    using normalized_bands_NaN [OF assms] by (simp_all add: normalized_bands_def)
  show ?thesis
    by (simp add: normalized_indices_def ndvib_w_def psnd_w_def evi_w_def n fsub_def
        fmul_NaN_right fdiv_NaN_right fadd_NaN_right f32_of_f64_def)
qed

lemma normalized_bands_divide:
  "\<forall>q\<in>set normalized_bands. \<exists>x. q smp = fdiv32 (f32_of_int (uint (x :: 16 word))) (total_bands smp)"
  by (simp add: normalized_bands_def a_w_def b_w_def c_w_def d_w_def e_w_def f_w_def g_w_def
      j_w_def k_w_def r_w_def s_w_def t_w_def u_w_def v_w_def w_w_def) blast

lemma a_only_values:
  "all_bands a_only_sample = 1"
  "total_bands a_only_sample = Fin 1"
  "ndvib_w a_only_sample = NaN"
  "psnd_w a_only_sample = NaN"
  "all_bands dark_sample = 0"
  "all_bands scenario_sample = 1350"
  by code_simp+

lemma bef_values:
  "all_bands bef_sample = 6"
  "uint (b bef_sample) = 1"
  "uint (e bef_sample) = 2"
  "uint (f bef_sample) = 3"
  "e_w bef_sample = Fin (11184811 / 67108864)"
  "f_w bef_sample = Fin (11184811 / 67108864)"
  "fdiv32 (f32_of_int (uint (e bef_sample))) (total_bands bef_sample) = Fin (11184811 / 33554432)"
  "fdiv32 (f32_of_int (uint (f bef_sample))) (total_bands bef_sample) = Fin (1 / 2)"
  by code_simp+

section \<open>The monitoring loop\<close>

lemma flt_irrefl: "\<not> flt x x"
  by (cases x) simp_all

lemma index_depends_on_nine_bands:
  assumes "b smp = b smp2" "c smp = c smp2" "d smp = d smp2" "e smp = e smp2" "f smp = f smp2"
    "g smp = g smp2" "u smp = u smp2" "v smp = v smp2" "w smp = w smp2"
  shows "calibrate_ndvi smp = calibrate_ndvi smp2 \<and> ndvib smp = ndvib smp2"
  using assms
  by (simp add: calibrate_ndvi_def calibrate_nd_def calibrate_vib_def ndvib_def loop_nd_def loop_vib_def)

lemma in_while_stays:
  "fst ((step sensor ^^ m) (In_while, st)) = In_while
   \<and> threshold (snd ((step sensor ^^ m) (In_while, st))) = threshold st
   \<and> ndvi (snd ((step sensor ^^ m) (In_while, st))) = ndvi st
   \<and> measured (snd ((step sensor ^^ m) (In_while, st))) = measured st + m"
proof (induction m)
  case 0
  then show ?case by simp
next
  case (Suc m)
  obtain st' where st': "(step sensor ^^ m) (In_while, st) = (In_while, st')"
    using Suc by (metis prod.collapse)
  then have "threshold st' = threshold st" "ndvi st' = ndvi st" "measured st' = measured st + m"
    using Suc by simp_all
  then show ?case by (simp add: st' cycle_fields)
qed

lemma run_from_2: "run sensor (2 + m) = (step sensor ^^ m) (run sensor 2)"
  by (subst add.commute) (simp only: run_def funpow_add o_apply)

lemma run_monitoring:
  assumes "2 \<le> n"
  shows "fst (run sensor n) = In_while \<and> threshold (snd (run sensor n)) = threshold (snd (run sensor 2))
    \<and> ndvi (snd (run sensor n)) = ndvi (snd (run sensor 2))
    \<and> measured (snd (run sensor n)) = 16 + (n - 2)"
proof -
  obtain m where n: "n = 2 + m" using assms by (metis le_Suc_ex)
  have "measured (calibrate sensor (sketch_setup boot)) = 16"
    using calibrated_fields(3) [of sensor] by (simp add: calibrated_eq)
  then show ?thesis
    unfolding n run_from_2 using in_while_stays [of m sensor "calibrate sensor (sketch_setup boot)"]
    by (simp add: run_2)
qed

lemma run_pc:
  "(fst (run sensor n) = At_setup \<longleftrightarrow> n = 0) \<and> (fst (run sensor n) = At_loop \<longleftrightarrow> n = 1)"
proof -
  consider "n = 0" | "n = 1" | "2 \<le> n" by linarith
  then show ?thesis
  proof cases
    case 1
    then show ?thesis by (simp add: run_0)
  next
    case 2
    then show ?thesis by (simp add: run_1)
  next
    case 3
    then show ?thesis using run_monitoring [OF 3, of sensor] by simp
  qed
qed

section \<open>The claims\<close>

text \<open>
  C1, as the code has it. For every sample whose denominator
  \<open>(u+v+w+e+f+g) + 2*(b+c+d)\<close> is not zero, the NDVIB that \<open>loop\<close> computes is the
  quotient \<open>((u+v+w+e+f+g) - 2*(b+c+d)) / ((u+v+w+e+f+g) + 2*(b+c+d))\<close> rounded to the nearest
  binary32 number, at most \<open>1 / 2 ^ 25\<close> away from it; with a zero denominator it is NaN.
  For the scenario sample the quotient is 0.6 and the index is the binary32 number nearest
  to it, \<open>10066330 / 2 ^ 24\<close>; against the threshold nearest to 0.515 the decision is
  Target and the 12 V rail is driven high.
\<close>

theorem ndvib_is_the_rounded_quotient:
  "ndvib smp = (if denominator smp = 0 then NaN else rnd32 (spec_index smp))
   \<and> (denominator smp \<noteq> 0 \<longrightarrow> (\<exists>y. ndvib smp = Fin y \<and> \<bar>y - spec_index smp\<bar> \<le> 1 / 2 ^ 25))
   \<and> spec_index scenario_sample = 6 / 10
   \<and> ndvib scenario_sample = rnd32 (6 / 10)
   \<and> ndvib scenario_sample = Fin (10066330 / 2 ^ 24)
   \<and> decide (rnd32 (515 / 1000)) (ndvib scenario_sample) = Target
   \<and> (threshold st = rnd32 (515 / 1000) \<and> sensor (measured st) = scenario_sample \<longrightarrow>
        Rail_Enable_12V (cycle sensor st)
        \<and> rail_writes (cycle sensor st) = rail_writes st @ [True]
        \<and> banners (cycle sensor st) = banners st @ [Target])"
proof -
  have "denominator smp \<noteq> 0 \<longrightarrow> (\<exists>y. ndvib smp = Fin y \<and> \<bar>y - spec_index smp\<bar> \<le> 1 / 2 ^ 25)"
    using ndvib_finite [of smp] by blast
  moreover have "ndvib smp = (if denominator smp = 0 then NaN else rnd32 (spec_index smp))"
    by (rule ndvib_eq)
  moreover have "spec_index scenario_sample = 6 / 10" "ndvib scenario_sample = rnd32 (6 / 10)"
    "ndvib scenario_sample = Fin (10066330 / 2 ^ 24)"
    by (simp_all add: scenario_values)
  moreover have "decide (rnd32 (515 / 1000)) (ndvib scenario_sample) = Target"
    by (simp add: scenario_values decide_def)
  moreover have "threshold st = rnd32 (515 / 1000) \<and> sensor (measured st) = scenario_sample \<longrightarrow>
        Rail_Enable_12V (cycle sensor st)
        \<and> rail_writes (cycle sensor st) = rail_writes st @ [True]
        \<and> banners (cycle sensor st) = banners st @ [Target]"
    by (simp add: cycle_fields decide_def scenario_values)
  ultimately show ?thesis by blast
qed

theorem ndvib_is_the_rounded_quotient_witness:
  "denominator scenario_sample \<noteq> 0
   \<and> threshold scenario_state = rnd32 (515 / 1000)
   \<and> scenario_stream (measured scenario_state) = scenario_sample
   \<and> ndvib scenario_sample = Fin (10066330 / 2 ^ 24)
   \<and> (\<exists>y. ndvib scenario_sample = Fin y \<and> \<bar>y - spec_index scenario_sample\<bar> \<le> 1 / 2 ^ 25)
   \<and> Rail_Enable_12V (cycle scenario_stream scenario_state)
   \<and> rail_writes (cycle scenario_stream scenario_state) = rail_writes scenario_state @ [True]
   \<and> banners (cycle scenario_stream scenario_state) = banners scenario_state @ [Target]"
proof -
  have d: "denominator scenario_sample \<noteq> 0" by (simp add: scenario_values)
  have t: "threshold scenario_state = rnd32 (515 / 1000)" by (simp add: scenario_state_def)
  have s: "scenario_stream (measured scenario_state) = scenario_sample" by (simp add: scenario_stream_def)
  show ?thesis
    using ndvib_is_the_rounded_quotient [of scenario_sample scenario_state scenario_stream] d t s
    by blast
qed

text \<open>
  C1 as stated fails: the index of the scenario sample is a binary32 number, and 0.6
  is not one.
\<close>

theorem ndvib_scenario_is_not_six_tenths:
  "spec_index scenario_sample = 6 / 10 \<and> ndvib scenario_sample \<noteq> Fin (6 / 10)"
  by (simp add: scenario_values)

text \<open>
  C2, as the code has it. Called by \<open>loop\<close> after \<open>setup\<close>, \<open>calibrate\<close> makes exactly sixteen
  acquisitions and stores the index of each in \<open>ndvi\<close>; the threshold it leaves is the sum of
  the sixteen indices, added up from zero in the order of acquisition, divided by 16, plus
  the offset, every operation rounded to binary32. The offset is the binary32 number nearest
  to 0.015. When all sixteen indices are exactly one half the threshold is
  \<open>8640266 / 2 ^ 24\<close>, the binary32 number nearest to 0.515.
\<close>

theorem calibrate_threshold_at_boot:
  "run sensor 2 = (In_while, calibrated sensor)
   \<and> calibrated sensor = calibrate sensor (sketch_setup boot)
   \<and> measured (sketch_setup boot) = 0
   \<and> measured (calibrated sensor) = 16
   \<and> ndvi (calibrated sensor) = batch sensor 0
   \<and> length (batch sensor 0) = 16
   \<and> (\<forall>n<16. batch sensor 0 ! n = calibrate_ndvi (sensor n))
   \<and> threshold (calibrated sensor) =
       fadd32 (fdiv32 (foldl fadd32 (Fin 0) (batch sensor 0)) (Fin 16)) (offset boot)
   \<and> offset boot = rnd32 (15 / 1000)
   \<and> offset boot = Fin (16106127 / 2 ^ 30)
   \<and> ((\<forall>n<16. calibrate_ndvi (sensor n) = Fin (1 / 2)) \<longrightarrow>
        threshold (calibrated sensor) = Fin (8640266 / 2 ^ 24))
   \<and> rnd32 (515 / 1000) = Fin (8640266 / 2 ^ 24)"
proof -
  have "run sensor 2 = (In_while, calibrated sensor)"
    "calibrated sensor = calibrate sensor (sketch_setup boot)"
    by (simp_all add: calibrated_eq run_2)
  moreover have "measured (sketch_setup boot) = 0" "measured (calibrated sensor) = 16"
    "ndvi (calibrated sensor) = batch sensor 0"
    by (simp_all add: calibrated_fields setup_fields boot_fields)
  moreover have "length (batch sensor 0) = 16" by (rule length_batch)
  moreover have "\<forall>n<16. batch sensor 0 ! n = calibrate_ndvi (sensor n)"
    by (simp add: nth_batch)
  moreover have thr: "threshold (calibrated sensor) =
       fadd32 (fdiv32 (foldl fadd32 (Fin 0) (batch sensor 0)) (Fin 16)) (offset boot)"
    by (rule calibrated_fields)
  moreover have "offset boot = rnd32 (15 / 1000)" "offset boot = Fin (16106127 / 2 ^ 30)"
    by (simp_all add: offset_boot rnd32_0015)
  moreover have "(\<forall>n<16. calibrate_ndvi (sensor n) = Fin (1 / 2)) \<longrightarrow>
        threshold (calibrated sensor) = Fin (8640266 / 2 ^ 24)"
  proof
    assume "\<forall>n<16. calibrate_ndvi (sensor n) = Fin (1 / 2)"
    then have "batch sensor 0 = replicate 16 (Fin (1 / 2))" by (rule all_half_batch)
    then show "threshold (calibrated sensor) = Fin (8640266 / 2 ^ 24)"
      using half_mean by (simp add: thr offset_boot mean_plus_offset_def)
  qed
  moreover have "rnd32 (515 / 1000) = Fin (8640266 / 2 ^ 24)"
    by (simp add: scenario_values)
  ultimately show ?thesis by blast
qed

theorem calibrate_threshold_at_boot_witness:
  "calibrate_ndvi (half_stream 0) = Fin (1 / 2)
   \<and> calibrate_ndvi (half_stream 15) = Fin (1 / 2)
   \<and> measured (calibrated half_stream) = 16
   \<and> length (batch half_stream 0) = 16
   \<and> threshold (calibrated half_stream) = Fin (8640266 / 2 ^ 24)"
proof -
  have h: "\<forall>n<16. calibrate_ndvi (half_stream n) = Fin (1 / 2)"
    by (simp add: half_stream_def half_index)
  have "calibrate_ndvi (half_stream 0) = Fin (1 / 2)" "calibrate_ndvi (half_stream 15) = Fin (1 / 2)"
    by (simp_all add: half_stream_def half_index)
  then show ?thesis
    using calibrate_threshold_at_boot [of half_stream] h by blast
qed

text \<open>
  C2 as stated fails: with sixteen indices of exactly one half the threshold is not the
  real number 0.515.
\<close>

theorem calibrate_half_batch_is_not_0515:
  "ndvi (calibrated half_stream) = replicate 16 (Fin (1 / 2))
   \<and> threshold (calibrated half_stream) \<noteq> Fin (515 / 1000)"
  by (simp add: calibrated_fields(2) batch_half calibrated_half)

text \<open>
  C3. In every pass of the monitoring loop the banner is Target, and the rail is driven
  high, exactly when \<open>threshold < ndvib\<close> holds as a comparison of floats: for finite values
  when the index is strictly greater than the threshold. An index equal to the threshold,
  and a NaN on either side, give NoTarget.
\<close>

theorem decision_is_strict_comparison:
  "(last (banners (cycle sensor st)) = Target \<longleftrightarrow> flt (threshold st) (ndvib (sensor (measured st))))
   \<and> (Rail_Enable_12V (cycle sensor st) \<longleftrightarrow> flt (threshold st) (ndvib (sensor (measured st))))
   \<and> (last (rail_writes (cycle sensor st)) \<longleftrightarrow> flt (threshold st) (ndvib (sensor (measured st))))
   \<and> (decide thr idx = Target \<longleftrightarrow> flt thr idx)
   \<and> (decide (Fin x) (Fin y) = Target \<longleftrightarrow> x < y)
   \<and> decide idx idx = NoTarget
   \<and> decide NaN idx = NoTarget
   \<and> decide thr NaN = NoTarget
   \<and> (ndvib (sensor (measured st)) = threshold st \<longrightarrow>
        last (banners (cycle sensor st)) = NoTarget \<and> \<not> Rail_Enable_12V (cycle sensor st)
        \<and> \<not> last (rail_writes (cycle sensor st)))"
proof -
  have "flt thr NaN = False" by (cases thr) simp_all
  then show ?thesis by (simp add: cycle_fields decide_def flt_irrefl)
qed

theorem decision_is_strict_comparison_witness:
  "ndvib (scenario_stream (measured tie_state)) = threshold tie_state
   \<and> last (banners (cycle scenario_stream tie_state)) = NoTarget
   \<and> \<not> Rail_Enable_12V (cycle scenario_stream tie_state)
   \<and> \<not> last (rail_writes (cycle scenario_stream tie_state))"
proof -
  have "ndvib (scenario_stream (measured tie_state)) = threshold tie_state"
    by (simp add: tie_state_def scenario_stream_def)
  then show ?thesis
    using decision_is_strict_comparison [of scenario_stream tie_state] by blast
qed

text \<open>
  C4 does not hold of the code: \<open>e_w\<close> and \<open>f_w\<close> are both \<open>b / total\<close>, for every sample.
  With \<open>b = 1\<close>, \<open>e = 2\<close>, \<open>f = 3\<close> and no other light, \<open>e_w\<close> and \<open>f_w\<close> are both the
  binary32 number nearest to \<open>1 / 6\<close>, where \<open>e / total\<close> is the one nearest to \<open>1 / 3\<close> and
  \<open>f / total\<close> is \<open>1 / 2\<close>.
\<close>

theorem e_w_and_f_w_read_band_b:
  "e_w smp = b_w smp \<and> f_w smp = b_w smp
   \<and> uint (b bef_sample) = 1 \<and> uint (e bef_sample) = 2 \<and> uint (f bef_sample) = 3
   \<and> all_bands bef_sample = 6
   \<and> e_w bef_sample = Fin (11184811 / 2 ^ 26)
   \<and> f_w bef_sample = Fin (11184811 / 2 ^ 26)
   \<and> fdiv32 (f32_of_int (uint (e bef_sample))) (total_bands bef_sample) = Fin (11184811 / 2 ^ 25)
   \<and> fdiv32 (f32_of_int (uint (f bef_sample))) (total_bands bef_sample) = Fin (1 / 2)"
proof -
  have "e_w smp = b_w smp \<and> f_w smp = b_w smp" by (simp add: e_w_def f_w_def b_w_def)
  moreover have "uint (b bef_sample) = 1 \<and> uint (e bef_sample) = 2 \<and> uint (f bef_sample) = 3
      \<and> all_bands bef_sample = 6"
    by (simp add: bef_values(1-4))
  moreover have "e_w bef_sample = Fin (11184811 / 2 ^ 26) \<and> f_w bef_sample = Fin (11184811 / 2 ^ 26)"
    by (simp add: bef_values(5,6))
  moreover have "fdiv32 (f32_of_int (uint (e bef_sample))) (total_bands bef_sample) = Fin (11184811 / 2 ^ 25)"
    by (simp only: bef_values(7)) simp
  moreover have "fdiv32 (f32_of_int (uint (f bef_sample))) (total_bands bef_sample) = Fin (1 / 2)"
    by (simp only: bef_values(8))
  ultimately show ?thesis by blast
qed

text \<open>
  C5. \<open>calibrate\<close> divides \<open>nd\<close> by \<open>vib\<close> with no check, and \<open>vib\<close> is the denominator
  \<open>(u+v+w+e+f+g) + 2*(b+c+d)\<close>. If the threshold it leaves is finite, the denominator of each
  of the sixteen samples was not zero: a sample with a zero denominator has the index NaN
  (the division \<open>0 / 0\<close> is carried out), and the threshold is then NaN. A sample with a
  non-zero denominator has a finite index of magnitude at most 1, and when all sixteen have
  one the threshold that the sketch's call of \<open>calibrate\<close> leaves is finite.
\<close>

theorem calibrate_finite_only_if_denominators_nonzero:
  assumes "length (ndvi st) = 16"
  shows "(is_finite (threshold (calibrate sensor st)) \<longrightarrow>
          (\<forall>n<16. denominator (sensor (measured st + n)) \<noteq> 0))
   \<and> (\<forall>n<16. denominator (sensor (measured st + n)) = 0 \<longrightarrow> threshold (calibrate sensor st) = NaN)
   \<and> calibrate_vib smp = Fin (of_int (denominator smp))
   \<and> calibrate_ndvi smp = fdiv32 (calibrate_nd smp) (calibrate_vib smp)
   \<and> (denominator smp \<noteq> 0 \<longrightarrow> (\<exists>y. calibrate_ndvi smp = Fin y \<and> \<bar>y\<bar> \<le> 1))
   \<and> (denominator smp = 0 \<longrightarrow> calibrate_ndvi smp = NaN)
   \<and> ((\<forall>n<16. denominator (sensor n) \<noteq> 0) \<longrightarrow> is_finite (threshold (calibrated sensor)))"
proof -
  have nan: "\<forall>n<16. denominator (sensor (measured st + n)) = 0 \<longrightarrow> threshold (calibrate sensor st) = NaN"
    using threshold_NaN [OF assms] by blast
  then have "is_finite (threshold (calibrate sensor st)) \<longrightarrow>
          (\<forall>n<16. denominator (sensor (measured st + n)) \<noteq> 0)"
    by (auto simp: is_finite_def)
  moreover have "denominator smp \<noteq> 0 \<longrightarrow> (\<exists>y. calibrate_ndvi smp = Fin y \<and> \<bar>y\<bar> \<le> 1)"
    using calibrate_ndvi_finite [of smp] by blast
  moreover have "denominator smp = 0 \<longrightarrow> calibrate_ndvi smp = NaN"
    by (simp add: calibrate_ndvi_eq)
  moreover have "(\<forall>n<16. denominator (sensor n) \<noteq> 0) \<longrightarrow> is_finite (threshold (calibrated sensor))"
    using threshold_finite_calibrated [of sensor] by blast
  moreover have "calibrate_vib smp = Fin (of_int (denominator smp))" by (rule calibrate_vib_exact)
  moreover have "calibrate_ndvi smp = fdiv32 (calibrate_nd smp) (calibrate_vib smp)"
    by (simp add: calibrate_ndvi_def)
  ultimately show ?thesis using nan by blast
qed

theorem calibrate_finite_only_if_denominators_nonzero_witness:
  "length (ndvi boot) = 16
   \<and> is_finite (threshold (calibrated half_stream))
   \<and> denominator (half_stream (measured boot + 3)) \<noteq> 0
   \<and> denominator (dark_stream (measured boot + 3)) = 0
   \<and> threshold (calibrate dark_stream boot) = NaN
   \<and> denominator half_sample \<noteq> 0
   \<and> (\<exists>y. calibrate_ndvi half_sample = Fin y \<and> \<bar>y\<bar> \<le> 1)
   \<and> denominator dark_sample = 0
   \<and> calibrate_ndvi dark_sample = NaN"
proof -
  have len: "length (ndvi boot) = 16" by (simp add: boot_fields)
  have h: "\<forall>n<16. denominator (half_stream n) \<noteq> 0" by (simp add: half_stream_def dark_values)
  have d: "denominator (dark_stream (measured boot + 3)) = 0" by (simp add: dark_stream_def dark_values)
  have h3: "denominator (half_stream (measured boot + 3)) \<noteq> 0" by (simp add: half_stream_def dark_values)
  have dz: "denominator dark_sample = 0" and hz: "denominator half_sample \<noteq> 0"
    by (simp_all add: dark_values)
  have three: "(3::nat) < 16" by simp
  show ?thesis
    using calibrate_finite_only_if_denominators_nonzero [OF len, of half_stream half_sample]
      calibrate_finite_only_if_denominators_nonzero [OF len, of dark_stream dark_sample]
      len h d h3 dz hz three
    by blast
qed

text \<open>
  C6, as the code has it. \<open>total\<close> is the sum of all eighteen bands, and each of the
  fifteen normalized wavelength values is a 16-bit reading divided by \<open>total\<close>, with no check.
  When the sum is zero every normalized wavelength value and every normalized index
  (\<open>ndvib_w\<close>, \<open>psnd_w\<close>, \<open>evi_w\<close>) is NaN. When the sum is not zero every normalized
  wavelength value is a finite number between 0 and 1. Nothing is said of the normalized
  indices in that case: they have denominators of their own.
\<close>

theorem normalized_values_by_total:
  "total_bands smp = Fin (of_int (all_bands smp))
   \<and> (\<forall>q\<in>set normalized_bands. \<exists>x. q smp = fdiv32 (f32_of_int (uint (x :: 16 word))) (total_bands smp))
   \<and> (all_bands smp = 0 \<longrightarrow>
        (\<forall>q\<in>set normalized_bands. q smp = NaN) \<and> (\<forall>q\<in>set normalized_indices. q smp = NaN))
   \<and> (all_bands smp \<noteq> 0 \<longrightarrow>
        (\<forall>q\<in>set normalized_bands. \<exists>y. q smp = Fin y \<and> 0 \<le> y \<and> y \<le> 1))"
  using total_exact [of smp] normalized_bands_divide [of smp] normalized_bands_NaN [of smp]
    normalized_indices_NaN [of smp] normalized_bands_finite [of smp]
  by blast

theorem normalized_values_by_total_witness:
  "all_bands dark_sample = 0
   \<and> u_w dark_sample = NaN
   \<and> ndvib_w dark_sample = NaN
   \<and> psnd_w dark_sample = NaN
   \<and> evi_w dark_sample = NaN
   \<and> all_bands scenario_sample \<noteq> 0
   \<and> (\<exists>y. u_w scenario_sample = Fin y \<and> 0 \<le> y \<and> y \<le> 1)
   \<and> (\<exists>y. e_w scenario_sample = Fin y \<and> 0 \<le> y \<and> y \<le> 1)"
proof -
  have m: "u_w \<in> set normalized_bands" "e_w \<in> set normalized_bands"
    "ndvib_w \<in> set normalized_indices" "psnd_w \<in> set normalized_indices"
    "evi_w \<in> set normalized_indices"
    by (simp_all add: normalized_bands_def normalized_indices_def)
  have z: "all_bands dark_sample = 0" and nz: "all_bands scenario_sample \<noteq> 0"
    by (simp_all add: a_only_values)
  show ?thesis
    using normalized_values_by_total [of dark_sample] normalized_values_by_total [of scenario_sample]
      m z nz
    by blast
qed

text \<open>
  C6 as stated fails: with light in band \<open>a\<close> only, \<open>total\<close> is 1 and the normalized indices
  \<open>ndvib_w\<close> and \<open>psnd_w\<close> are still \<open>0 / 0\<close>.
\<close>

theorem normalized_index_undefined_with_nonzero_total:
  "all_bands a_only_sample = 1 \<and> total_bands a_only_sample = Fin 1
   \<and> ndvib_w a_only_sample = NaN \<and> psnd_w a_only_sample = NaN"
  by (simp add: a_only_values)

text \<open>
  C7, as the code has it. The index of \<open>calibrate\<close> (lines 114 to 116) and the index
  of \<open>loop\<close> (lines 226 to 228) are equal for every sample, and both depend on the nine
  bands \<open>b, c, d, e, f, g, u, v, w\<close> only. The formula is written out at both places:
  \<open>calibrate\<close> calls no function of the sketch, and \<open>loop\<close> calls \<open>calibrate\<close> alone.
\<close>

theorem index_copies_compute_the_same_function:
  "calibrate_ndvi smp = ndvib smp
   \<and> (b smp = b smp2 \<and> c smp = c smp2 \<and> d smp = d smp2 \<and> e smp = e smp2 \<and> f smp = f smp2
        \<and> g smp = g smp2 \<and> u smp = u smp2 \<and> v smp = v smp2 \<and> w smp = w smp2 \<longrightarrow>
      calibrate_ndvi smp = calibrate_ndvi smp2 \<and> ndvib smp = ndvib smp2)
   \<and> callees Fn_calibrate = []
   \<and> callees Fn_loop = [Fn_calibrate]"
proof -
  have "callees Fn_calibrate = []" "callees Fn_loop = [Fn_calibrate]" by simp_all
  then show ?thesis
    using calibrate_ndvi_eq_ndvib [of smp] index_depends_on_nine_bands [of smp smp2] by blast
qed

theorem index_copies_compute_the_same_function_witness:
  "calibrate_ndvi scenario_sample = ndvib scenario_sample
   \<and> b scenario_sample = b (scenario_sample\<lparr>a := 7\<rparr>)
   \<and> w scenario_sample = w (scenario_sample\<lparr>a := 7\<rparr>)
   \<and> calibrate_ndvi scenario_sample = calibrate_ndvi (scenario_sample\<lparr>a := 7\<rparr>)
   \<and> ndvib scenario_sample = ndvib (scenario_sample\<lparr>a := 7\<rparr>)"
proof -
  have "b scenario_sample = b (scenario_sample\<lparr>a := 7\<rparr>)"
    "c scenario_sample = c (scenario_sample\<lparr>a := 7\<rparr>)"
    "d scenario_sample = d (scenario_sample\<lparr>a := 7\<rparr>)"
    "e scenario_sample = e (scenario_sample\<lparr>a := 7\<rparr>)"
    "f scenario_sample = f (scenario_sample\<lparr>a := 7\<rparr>)"
    "g scenario_sample = g (scenario_sample\<lparr>a := 7\<rparr>)"
    "u scenario_sample = u (scenario_sample\<lparr>a := 7\<rparr>)"
    "v scenario_sample = v (scenario_sample\<lparr>a := 7\<rparr>)"
    "w scenario_sample = w (scenario_sample\<lparr>a := 7\<rparr>)"
    by simp_all
  then show ?thesis
    using index_copies_compute_the_same_function [of scenario_sample "scenario_sample\<lparr>a := 7\<rparr>"]
    by blast
qed

text \<open>
  C7 as stated fails: no function of the sketch is called both from \<open>calibrate\<close> and from
  \<open>loop\<close>, so the two places do not go through one shared implementation.
\<close>

theorem no_function_of_the_sketch_is_shared:
  "set (callees Fn_calibrate) \<inter> set (callees Fn_loop) = {}"
  by simp

text \<open>
  C8. The run of the sketch is at \<open>setup\<close> at step 0 only and at the call of \<open>calibrate\<close>
  at step 1 only; from step 2 on it is inside \<open>while (1)\<close>, the threshold and the array
  \<open>ndvi\<close> are as that one call of \<open>calibrate\<close> left them, and the sensor has been read sixteen
  times for the calibration and once for each pass. A pass of the loop stays in the loop and
  does not write the threshold, from any state and for any number of passes.
\<close>

theorem monitoring_never_writes_the_threshold:
  "(fst (run sensor n) = At_setup \<longleftrightarrow> n = 0)
   \<and> (fst (run sensor n) = At_loop \<longleftrightarrow> n = 1)
   \<and> run sensor 2 = (In_while, calibrate sensor (sketch_setup boot))
   \<and> calibrated sensor = snd (run sensor 2)
   \<and> (2 \<le> n \<longrightarrow> fst (run sensor n) = In_while
        \<and> threshold (snd (run sensor n)) = threshold (calibrated sensor)
        \<and> ndvi (snd (run sensor n)) = ndvi (calibrated sensor)
        \<and> measured (snd (run sensor n)) = 16 + (n - 2))
   \<and> step sensor (In_while, st) = (In_while, cycle sensor st)
   \<and> threshold (cycle sensor st) = threshold st
   \<and> fst ((step sensor ^^ m) (In_while, st)) = In_while
   \<and> threshold (snd ((step sensor ^^ m) (In_while, st))) = threshold st"
  using run_pc [of sensor n] run_2 [of sensor] run_monitoring [of n sensor]
    in_while_stays [of m sensor st]
  by (simp add: cycle_fields calibrated_def)

theorem monitoring_never_writes_the_threshold_witness:
  "(2::nat) \<le> 7
   \<and> fst (run half_stream 7) = In_while
   \<and> threshold (snd (run half_stream 7)) = threshold (calibrated half_stream)
   \<and> measured (snd (run half_stream 7)) = 16 + (7 - 2)
   \<and> threshold (calibrated half_stream) = Fin (8640266 / 2 ^ 24)
   \<and> fst (run half_stream 1) = At_loop
   \<and> fst ((step half_stream ^^ 5) (In_while, scenario_state)) = In_while
   \<and> threshold (snd ((step half_stream ^^ 5) (In_while, scenario_state))) = threshold scenario_state"
proof -
  have "(2::nat) \<le> 7" by simp
  moreover have "threshold (calibrated half_stream) = Fin (8640266 / 2 ^ 24)"
    by (simp add: calibrated_half)
  ultimately show ?thesis
    using monitoring_never_writes_the_threshold [of half_stream 7 scenario_state 5]
      monitoring_never_writes_the_threshold [of half_stream 1 scenario_state 5]
    by blast
qed

text \<open>
  C9. Two passes of the monitoring loop that start with the same threshold and read the
  same sample print the same banner and write the same level to the 12 V rail, whatever else
  differs between the two states (the level of the rail, the history, the position in the
  sensor stream). Every pass appends exactly one write to the history of the rail, high
  exactly when the decision is Target; two passes in a row on the same sample make the same
  write twice.
\<close>

theorem cycle_decision_depends_on_sample_and_threshold:
  "(threshold st1 = threshold st2 \<and> sensor1 (measured st1) = sensor2 (measured st2) \<longrightarrow>
      last (banners (cycle sensor1 st1)) = last (banners (cycle sensor2 st2))
      \<and> last (rail_writes (cycle sensor1 st1)) = last (rail_writes (cycle sensor2 st2))
      \<and> Rail_Enable_12V (cycle sensor1 st1) = Rail_Enable_12V (cycle sensor2 st2))
   \<and> banners (cycle sensor st) = banners st @ [decide (threshold st) (ndvib (sensor (measured st)))]
   \<and> rail_writes (cycle sensor st) =
       rail_writes st @ [decide (threshold st) (ndvib (sensor (measured st))) = Target]
   \<and> Rail_Enable_12V (cycle sensor st) = (decide (threshold st) (ndvib (sensor (measured st))) = Target)
   \<and> threshold (cycle sensor st) = threshold st
   \<and> (sensor (measured st + 1) = sensor (measured st) \<longrightarrow>
        banners (cycle sensor (cycle sensor st)) =
          banners st @ [decide (threshold st) (ndvib (sensor (measured st))),
                        decide (threshold st) (ndvib (sensor (measured st)))]
        \<and> rail_writes (cycle sensor (cycle sensor st)) =
          rail_writes st @ [decide (threshold st) (ndvib (sensor (measured st))) = Target,
                            decide (threshold st) (ndvib (sensor (measured st))) = Target])"
  by (simp add: cycle_fields decide_def)

theorem cycle_decision_depends_on_sample_and_threshold_witness:
  "threshold scenario_state = threshold other_state
   \<and> scenario_stream (measured scenario_state) = scenario_stream (measured other_state)
   \<and> Rail_Enable_12V scenario_state \<noteq> Rail_Enable_12V other_state
   \<and> last (banners (cycle scenario_stream scenario_state)) = last (banners (cycle scenario_stream other_state))
   \<and> last (rail_writes (cycle scenario_stream scenario_state))
       = last (rail_writes (cycle scenario_stream other_state))
   \<and> Rail_Enable_12V (cycle scenario_stream scenario_state)
       = Rail_Enable_12V (cycle scenario_stream other_state)
   \<and> scenario_stream (measured scenario_state + 1) = scenario_stream (measured scenario_state)
   \<and> rail_writes (cycle scenario_stream (cycle scenario_stream scenario_state)) =
       rail_writes scenario_state @
         [decide (threshold scenario_state) (ndvib (scenario_stream (measured scenario_state))) = Target,
          decide (threshold scenario_state) (ndvib (scenario_stream (measured scenario_state))) = Target]"
proof -
  have p: "threshold scenario_state = threshold other_state"
    "scenario_stream (measured scenario_state) = scenario_stream (measured other_state)"
    "Rail_Enable_12V scenario_state \<noteq> Rail_Enable_12V other_state"
    "scenario_stream (measured scenario_state + 1) = scenario_stream (measured scenario_state)"
    by (simp_all add: other_state_def scenario_state_def scenario_stream_def boot_def)
  show ?thesis
    using cycle_decision_depends_on_sample_and_threshold
      [of scenario_state other_state scenario_stream scenario_stream scenario_stream scenario_state]
      p
    by blast
qed

text \<open>
  C10, as the code has it. \<open>calibrate\<close> adds the sixteen indices onto the threshold it finds,
  without resetting it: the threshold it leaves is the threshold at entry plus the sixteen
  indices, divided by 16, plus the offset, every operation rounded to binary32 and the
  additions in the order of acquisition. When the threshold at entry is zero, as it is at
  power-on, that is the mean plus offset of the batch. A second call starts its sum from the
  threshold the first one left: on the stream of samples of index one half its result,
  \<open>9180282 / 2 ^ 24\<close>, is not the mean plus offset of its batch, \<open>8640266 / 2 ^ 24\<close>; on a stream
  whose first calibration leaves \<open>1 / 2 ^ 25\<close> and whose next sixteen indices are 1 the first
  addition rounds the old threshold away and the result is the mean plus offset of the batch.
\<close>

theorem calibrate_accumulates_onto_threshold:
  assumes "length (ndvi st) = 16"
  shows "threshold (calibrate sensor st) =
       fadd32 (fdiv32 (foldl fadd32 (threshold st) (batch sensor (measured st))) (Fin 16)) (offset st)
   \<and> (threshold st = Fin 0 \<longrightarrow>
        threshold (calibrate sensor st) = mean_plus_offset (batch sensor (measured st)) (offset st))
   \<and> threshold boot = Fin 0
   \<and> threshold (sketch_setup boot) = Fin 0
   \<and> length (ndvi (sketch_setup boot)) = 16
   \<and> length (ndvi (calibrate sensor st)) = 16
   \<and> threshold (calibrate sensor2 (calibrate sensor st)) =
       fadd32 (fdiv32 (foldl fadd32 (threshold (calibrate sensor st)) (batch sensor2 (measured st + 16)))
                 (Fin 16)) (offset st)
   \<and> threshold (calibrated half_stream) = mean_plus_offset (batch half_stream 0) (offset boot)
   \<and> threshold (calibrate half_stream (calibrated half_stream))
       \<noteq> mean_plus_offset (batch half_stream 16) (offset boot)
   \<and> threshold (calibrated absorbed_stream) = Fin (1 / 2 ^ 25)
   \<and> threshold (calibrate absorbed_stream (calibrated absorbed_stream))
       = mean_plus_offset (batch absorbed_stream 16) (offset boot)"
proof -
  have one: "threshold (calibrate sensor st) =
       fadd32 (fdiv32 (foldl fadd32 (threshold st) (batch sensor (measured st))) (Fin 16)) (offset st)"
    using assms by (rule calibrate_threshold)
  have len: "length (ndvi (calibrate sensor st)) = 16"
    by (simp add: calibrate_fields [OF assms] length_batch)
  have two: "threshold (calibrate sensor2 (calibrate sensor st)) =
       fadd32 (fdiv32 (foldl fadd32 (threshold (calibrate sensor st)) (batch sensor2 (measured st + 16)))
                 (Fin 16)) (offset st)"
    by (simp add: calibrate_threshold [OF len] calibrate_fields [OF assms])
  have "threshold st = Fin 0 \<longrightarrow>
        threshold (calibrate sensor st) = mean_plus_offset (batch sensor (measured st)) (offset st)"
    by (simp add: one mean_plus_offset_def)
  moreover have "threshold (calibrated half_stream) = mean_plus_offset (batch half_stream 0) (offset boot)"
    by (simp add: calibrated_fields mean_plus_offset_def)
  moreover have "threshold (calibrate half_stream (calibrated half_stream))
       \<noteq> mean_plus_offset (batch half_stream 16) (offset boot)"
    using half_mean by (simp add: calibrated_half_twice batch_half offset_boot)
  moreover have "threshold (calibrated absorbed_stream) = Fin (1 / 2 ^ 25)"
    by (simp add: calibrated_absorbed)
  moreover have "threshold (calibrate absorbed_stream (calibrated absorbed_stream))
       = mean_plus_offset (batch absorbed_stream 16) (offset boot)"
    using unit_mean by (simp add: calibrated_absorbed_twice batch_absorbed_16 offset_boot)
  moreover have "threshold boot = Fin 0" "threshold (sketch_setup boot) = Fin 0"
    "length (ndvi (sketch_setup boot)) = 16"
    by (simp_all add: boot_fields setup_fields)
  ultimately show ?thesis using one two len by blast
qed

theorem calibrate_accumulates_onto_threshold_witness:
  "length (ndvi (calibrated half_stream)) = 16
   \<and> threshold (calibrate half_stream (calibrated half_stream)) =
       fadd32 (fdiv32 (foldl fadd32 (threshold (calibrated half_stream))
                 (batch half_stream (measured (calibrated half_stream)))) (Fin 16))
         (offset (calibrated half_stream))
   \<and> threshold (calibrated half_stream) = Fin (8640266 / 2 ^ 24)
   \<and> threshold (calibrate half_stream (calibrated half_stream)) = Fin (9180282 / 2 ^ 24)
   \<and> length (ndvi (sketch_setup boot)) = 16
   \<and> threshold (sketch_setup boot) = Fin 0
   \<and> threshold (calibrate half_stream (sketch_setup boot)) =
       mean_plus_offset (batch half_stream (measured (sketch_setup boot))) (offset (sketch_setup boot))"
proof -
  have len: "length (ndvi (calibrated half_stream)) = 16"
    by (simp add: calibrated_fields length_batch)
  have len0: "length (ndvi (sketch_setup boot)) = 16"
    by (simp add: setup_fields boot_fields)
  have zero: "threshold (sketch_setup boot) = Fin 0"
    by (simp add: setup_fields boot_fields)
  have "threshold (calibrated half_stream) = Fin (8640266 / 2 ^ 24)"
    "threshold (calibrate half_stream (calibrated half_stream)) = Fin (9180282 / 2 ^ 24)"
    by (simp_all add: calibrated_half calibrated_half_twice)
  then show ?thesis
    using calibrate_accumulates_onto_threshold [OF len, of half_stream]
      calibrate_accumulates_onto_threshold [OF len0, of half_stream] len len0 zero
    by blast
qed

text \<open>
  C10 as stated fails: the mean plus offset does not hold only when the threshold at entry is
  zero, and a second call does not always fold the previous threshold into the new one. After
  the first calibration on \<open>absorbed_stream\<close> the threshold is \<open>1 / 2 ^ 25\<close>, not zero, and the
  second calibration, on sixteen indices of 1, leaves exactly the mean plus offset of its own
  batch, \<open>8514437 / 2 ^ 23\<close>, which is not \<open>(1 / 2 ^ 25 + 16) / 16 + offset\<close>. Nor is the threshold
  the real number \<open>(0 + 16 * 0.5) / 16 + 0.015\<close> after the first calibration on samples of index
  one half.
\<close>

theorem second_calibration_can_absorb_the_threshold:
  "ndvi (calibrated absorbed_stream) = Fin (- (16106095 / 2 ^ 26)) # replicate 15 (Fin 0)
   \<and> threshold (calibrated absorbed_stream) = Fin (1 / 2 ^ 25)
   \<and> threshold (calibrated absorbed_stream) \<noteq> Fin 0
   \<and> ndvi (calibrate absorbed_stream (calibrated absorbed_stream)) = replicate 16 (Fin 1)
   \<and> threshold (calibrate absorbed_stream (calibrated absorbed_stream))
       = mean_plus_offset (replicate 16 (Fin 1)) (offset boot)
   \<and> threshold (calibrate absorbed_stream (calibrated absorbed_stream)) = Fin (8514437 / 2 ^ 23)
   \<and> threshold (calibrate absorbed_stream (calibrated absorbed_stream))
       \<noteq> Fin ((1 / 2 ^ 25 + 16 * 1) / 16 + 16106127 / 2 ^ 30)
   \<and> threshold (calibrate absorbed_stream (calibrated absorbed_stream))
       \<noteq> Fin ((1 / 2 ^ 25 + 16 * 1) / 16 + 15 / 1000)
   \<and> threshold (calibrated half_stream) \<noteq> Fin ((0 + 16 * (1 / 2)) / 16 + 15 / 1000)"
proof -
  have len: "length (ndvi (calibrated absorbed_stream)) = 16"
    by (simp add: calibrated_fields length_batch)
  have "ndvi (calibrated absorbed_stream) = Fin (- (16106095 / 2 ^ 26)) # replicate 15 (Fin 0)"
    by (simp add: calibrated_fields(2) batch_absorbed_0)
  moreover have "ndvi (calibrate absorbed_stream (calibrated absorbed_stream)) = replicate 16 (Fin 1)"
    by (simp add: calibrate_fields [OF len] calibrated_fields(2-5) batch_absorbed_16)
  moreover have "threshold (calibrated absorbed_stream) = Fin (1 / 2 ^ 25)"
    "threshold (calibrated absorbed_stream) \<noteq> Fin 0"
    by (simp_all add: calibrated_absorbed)
  moreover have "threshold (calibrate absorbed_stream (calibrated absorbed_stream))
       = mean_plus_offset (replicate 16 (Fin 1)) (offset boot)"
    using unit_mean by (simp add: calibrated_absorbed_twice offset_boot)
  moreover have "threshold (calibrate absorbed_stream (calibrated absorbed_stream)) = Fin (8514437 / 2 ^ 23)"
    "threshold (calibrate absorbed_stream (calibrated absorbed_stream))
       \<noteq> Fin ((1 / 2 ^ 25 + 16 * 1) / 16 + 16106127 / 2 ^ 30)"
    "threshold (calibrate absorbed_stream (calibrated absorbed_stream))
       \<noteq> Fin ((1 / 2 ^ 25 + 16 * 1) / 16 + 15 / 1000)"
    by (simp_all add: calibrated_absorbed_twice)
  moreover have "threshold (calibrated half_stream) \<noteq> Fin ((0 + 16 * (1 / 2)) / 16 + 15 / 1000)"
    by (simp add: calibrated_half)
  ultimately show ?thesis by blast
qed

end
